theory Spec2Isabelle
  imports Complex_Main "HOL-Library.AList" "HOL-Library.Monad_Syntax"
begin

section \<open>JavaScript values\<close>

text \<open>
  The scanner works on whatever \<^verbatim>\<open>resp.json()\<close> returns, so the model is untyped, as the
  code is: a value is \<^verbatim>\<open>undefined\<close>, \<^verbatim>\<open>null\<close>, a boolean, a number, a string, an array or an
  object. An object is the list of its own properties in insertion order; a property that
  is missing reads as \<^verbatim>\<open>undefined\<close>.

  Numbers are rationals extended with \<^verbatim>\<open>NaN\<close> and the two infinities: every double is one.
  The sign of zero is not modelled. Exceptions are values: a function that may throw
  returns an \<open>option\<close>, and \<open>None\<close> is the TypeError, the only exception these functions
  raise.
\<close>

datatype jsnum = Fin rat | NaN | PosInf | NegInf

datatype jsval =
    JUndefined
  | JNull
  | JBool bool
  | JNum jsnum
  | JStr string
  | JArr "jsval list"
  | JObj "(string \<times> jsval) list"

text \<open>
  The conversions between strings and numbers and the arithmetic of doubles belong to the
  JavaScript runtime, not to the repository; they are parameters of the model, and what is
  proved holds for all of them. \<open>float_div\<close> and \<open>float_mul\<close> are \<^verbatim>\<open>/\<close> and \<^verbatim>\<open>*\<close> on
  numbers, each with the rounding of its result to a double (\<^verbatim>\<open>23 / 40 * 100\<close> is
  \<^verbatim>\<open>57.49999999999999\<close>, not 57.5); \<open>float_sub\<close> is \<^verbatim>\<open>-\<close>, likewise.
\<close>

record runtime =
  str_to_num :: "string \<Rightarrow> jsnum"  \<comment> \<open>\<^verbatim>\<open>Number(s)\<close> on a string\<close>
  num_to_str :: "jsnum \<Rightarrow> string"  \<comment> \<open>\<^verbatim>\<open>String(n)\<close> on a number\<close>
  float_div :: "jsnum \<Rightarrow> jsnum \<Rightarrow> jsnum"  \<comment> \<open>\<^verbatim>\<open>x / y\<close>\<close>
  float_mul :: "jsnum \<Rightarrow> jsnum \<Rightarrow> jsnum"  \<comment> \<open>\<^verbatim>\<open>x * y\<close>\<close>
  float_sub :: "jsnum \<Rightarrow> jsnum \<Rightarrow> jsnum"  \<comment> \<open>\<^verbatim>\<open>x - y\<close>\<close>

subsection \<open>Truthiness, \<^verbatim>\<open>||\<close>, \<^verbatim>\<open>typeof\<close>\<close>

fun truthy :: "jsval \<Rightarrow> bool" where
  "truthy JUndefined = False"
| "truthy JNull = False"
| "truthy (JBool b) = b"
| "truthy (JNum n) = (n \<noteq> Fin 0 \<and> n \<noteq> NaN)"
| "truthy (JStr s) = (s \<noteq> [])"
| "truthy (JArr xs) = True"
| "truthy (JObj ps) = True"

definition js_or :: "jsval \<Rightarrow> jsval \<Rightarrow> jsval" where
  "js_or a b = (if truthy a then a else b)"

fun isArray :: "jsval \<Rightarrow> bool" where
  "isArray (JArr xs) = True"
| "isArray v = False"

text \<open>\<^verbatim>\<open>typeof v === 'object'\<close>: true of \<^verbatim>\<open>null\<close>, of arrays and of objects.\<close>

fun typeof_object :: "jsval \<Rightarrow> bool" where
  "typeof_object JNull = True"
| "typeof_object (JArr xs) = True"
| "typeof_object (JObj ps) = True"
| "typeof_object v = False"

fun elems :: "jsval \<Rightarrow> jsval list" where
  "elems (JArr xs) = xs"
| "elems v = []"

subsection \<open>Property access\<close>

text \<open>
  \<^verbatim>\<open>v.k\<close> for the property names the scanner reads (identifiers such as \<^verbatim>\<open>results\<close> or
  \<^verbatim>\<open>favicon_url\<close>, none of them an array index, \<^verbatim>\<open>length\<close> or a member of a prototype).
  Reading a property of \<^verbatim>\<open>undefined\<close> or \<^verbatim>\<open>null\<close> throws a TypeError: the result is \<open>None\<close>.
\<close>

fun get_prop :: "jsval \<Rightarrow> string \<Rightarrow> jsval option" where
  "get_prop JUndefined k = None"
| "get_prop JNull k = None"
| "get_prop (JObj ps) k = Some (case map_of ps k of None \<Rightarrow> JUndefined | Some v \<Rightarrow> v)"
| "get_prop v k = Some JUndefined"

text \<open>\<^verbatim>\<open>v?.k\<close>: \<^verbatim>\<open>undefined\<close> instead of the TypeError.\<close>

definition opt_prop :: "jsval \<Rightarrow> string \<Rightarrow> jsval" where
  "opt_prop v k = (case get_prop v k of None \<Rightarrow> JUndefined | Some x \<Rightarrow> x)"

text \<open>\<^verbatim>\<open>v?.[0]\<close>: the first element of an array, the first character of a string.\<close>

fun opt_index0 :: "jsval \<Rightarrow> jsval" where
  "opt_index0 (JArr (x # xs)) = x"
| "opt_index0 (JStr (c # cs)) = JStr [c]"
| "opt_index0 (JObj ps) = (case map_of ps ''0'' of None \<Rightarrow> JUndefined | Some v \<Rightarrow> v)"
| "opt_index0 v = JUndefined"

subsection \<open>Object spread and object literals\<close>

fun digit_char :: "nat \<Rightarrow> char" where
  "digit_char n = char_of (48 + n)"

function show_nat :: "nat \<Rightarrow> string" where
  "show_nat n = (if n < 10 then [digit_char n] else show_nat (n div 10) @ [digit_char (n mod 10)])"
  by pat_completeness auto
termination
  by (relation "measure id") auto

declare show_nat.simps [simp del]

text \<open>
  \<^verbatim>\<open>{...v}\<close> copies the own enumerable properties of \<open>v\<close>: those of an object, the indexed
  elements of an array, the indexed characters of a string, and nothing of any other value
  (\<^verbatim>\<open>undefined\<close> and \<^verbatim>\<open>null\<close> included).
\<close>

fun own_props :: "jsval \<Rightarrow> (string \<times> jsval) list" where
  "own_props (JObj ps) = ps"
| "own_props (JArr xs) = zip (map show_nat [0..<length xs]) xs"
| "own_props (JStr s) = zip (map show_nat [0..<length s]) (map (\<lambda>c. JStr [c]) s)"
| "own_props v = []"

text \<open>
  \<^verbatim>\<open>{...v, k1: x1, ..., kn: xn}\<close>: each named property replaces the spread one in place, or
  is appended.
\<close>

definition set_props :: "(string \<times> jsval) list \<Rightarrow> (string \<times> jsval) list \<Rightarrow> (string \<times> jsval) list" where
  "set_props ps kvs = foldl (\<lambda>acc (k, v). AList.update k v acc) ps kvs"

definition spread_with :: "jsval \<Rightarrow> (string \<times> jsval) list \<Rightarrow> jsval" where
  "spread_with v kvs = JObj (set_props (own_props v) kvs)"

subsection \<open>Conversions to string and to number\<close>

text \<open>
  \<^verbatim>\<open>String(v)\<close>, as a template literal and a computed property key apply it. An array joins
  its elements with commas, \<^verbatim>\<open>undefined\<close> and \<^verbatim>\<open>null\<close> elements giving the empty string.
  An object of \<^verbatim>\<open>JSON.parse\<close> converts with the methods of \<^verbatim>\<open>Object.prototype\<close>, to
  \<^verbatim>\<open>[object Object]\<close>, unless it has an own property \<^verbatim>\<open>toString\<close>: that property hides the
  inherited method and is no function, \<^verbatim>\<open>valueOf\<close> (own or inherited) gives no primitive
  value either, and the conversion throws a TypeError.
\<close>

fun to_string :: "runtime \<Rightarrow> jsval \<Rightarrow> string option"
  and join_elems :: "runtime \<Rightarrow> jsval list \<Rightarrow> string option"
  and elem_string :: "runtime \<Rightarrow> jsval \<Rightarrow> string option" where
  "to_string rt JUndefined = Some ''undefined''"
| "to_string rt JNull = Some ''null''"
| "to_string rt (JBool b) = Some (if b then ''true'' else ''false'')"
| "to_string rt (JNum n) = Some (num_to_str rt n)"
| "to_string rt (JStr s) = Some s"
| "to_string rt (JArr xs) = join_elems rt xs"
| "to_string rt (JObj ps) =
     (case map_of ps ''toString'' of None \<Rightarrow> Some ''[object Object]'' | Some m \<Rightarrow> None)"
| "join_elems rt [] = Some []"
| "join_elems rt [x] = elem_string rt x"
| "join_elems rt (x # y # ys) =
     (case elem_string rt x of
        None \<Rightarrow> None
      | Some a \<Rightarrow>
          (case join_elems rt (y # ys) of
             None \<Rightarrow> None
           | Some b \<Rightarrow> Some (a @ '','' @ b)))"
| "elem_string rt JUndefined = Some []"
| "elem_string rt JNull = Some []"
| "elem_string rt (JBool b) = to_string rt (JBool b)"
| "elem_string rt (JNum n) = to_string rt (JNum n)"
| "elem_string rt (JStr s) = to_string rt (JStr s)"
| "elem_string rt (JArr xs) = to_string rt (JArr xs)"
| "elem_string rt (JObj ps) = to_string rt (JObj ps)"

text \<open>
  \<^verbatim>\<open>Number(v)\<close>, as the arithmetic and relational operators apply it to an operand. An array
  or an object is converted to a string first, and throws where that conversion throws.
\<close>

fun to_number :: "runtime \<Rightarrow> jsval \<Rightarrow> jsnum option" where
  "to_number rt JUndefined = Some NaN"
| "to_number rt JNull = Some (Fin 0)"
| "to_number rt (JBool b) = Some (Fin (if b then 1 else 0))"
| "to_number rt (JNum n) = Some n"
| "to_number rt (JStr s) = Some (str_to_num rt s)"
| "to_number rt (JArr xs) = map_option (str_to_num rt) (to_string rt (JArr xs))"
| "to_number rt (JObj ps) = map_option (str_to_num rt) (to_string rt (JObj ps))"

subsection \<open>Comparison and rounding of numbers\<close>

text \<open>The relational operators on numbers; they are exact on doubles.\<close>

fun num_lt :: "jsnum \<Rightarrow> jsnum \<Rightarrow> bool" where
  "num_lt NaN y = False"
| "num_lt x NaN = False"
| "num_lt (Fin a) (Fin b) = (a < b)"
| "num_lt x NegInf = False"
| "num_lt NegInf y = True"
| "num_lt PosInf y = False"
| "num_lt x PosInf = True"

definition num_gt :: "jsnum \<Rightarrow> jsnum \<Rightarrow> bool" where
  "num_gt x y = num_lt y x"

definition num_ge :: "jsnum \<Rightarrow> jsnum \<Rightarrow> bool" where
  "num_ge x y = (x \<noteq> NaN \<and> y \<noteq> NaN \<and> \<not> num_lt x y)"

text \<open>
  \<^verbatim>\<open>v > n\<close> and \<^verbatim>\<open>v >= n\<close> for a value \<open>v\<close> and a number literal \<open>n\<close>: the value is converted
  to a number, which may throw.
\<close>

definition js_gt :: "runtime \<Rightarrow> jsval \<Rightarrow> rat \<Rightarrow> bool option" where
  "js_gt rt v n = map_option (\<lambda>x. num_gt x (Fin n)) (to_number rt v)"

definition js_ge :: "runtime \<Rightarrow> jsval \<Rightarrow> rat \<Rightarrow> bool option" where
  "js_ge rt v n = map_option (\<lambda>x. num_ge x (Fin n)) (to_number rt v)"

text \<open>\<^verbatim>\<open>a || b\<close> on conditions: \<open>b\<close> is evaluated, and may throw, only when \<open>a\<close> is false.\<close>

definition or_else :: "bool option \<Rightarrow> bool option \<Rightarrow> bool option" where
  "or_else a b = (case a of None \<Rightarrow> None | Some x \<Rightarrow> if x then Some True else b)"

text \<open>
  \<^verbatim>\<open>Math.round\<close>: the nearest integer, a tie going up. It is exact: the nearest integer of a
  double is a double. \<^verbatim>\<open>Math.floor\<close> likewise.
\<close>

fun math_round :: "jsnum \<Rightarrow> jsnum" where
  "math_round (Fin a) = Fin (of_int \<lfloor>a + 1 / 2\<rfloor>)"
| "math_round x = x"

fun math_floor :: "jsnum \<Rightarrow> jsnum" where
  "math_floor (Fin a) = Fin (of_int \<lfloor>a\<rfloor>)"
| "math_floor x = x"

subsection \<open>Sequencing\<close>

text \<open>\<^verbatim>\<open>a || b || ... || z\<close>: the first truthy operand, or the last one.\<close>

fun or_chain :: "jsval list \<Rightarrow> jsval" where
  "or_chain [] = JUndefined"
| "or_chain [x] = x"
| "or_chain (x # y # ys) = (if truthy x then x else or_chain (y # ys))"

text \<open>\<^verbatim>\<open>xs.map(f)\<close> where \<open>f\<close> may throw: the first exception ends the whole call.\<close>

definition map_all :: "('a \<Rightarrow> 'b option) \<Rightarrow> 'a list \<Rightarrow> 'b list option" where
  "map_all f xs = those (map f xs)"

section \<open>Result field normalizer (\<^verbatim>\<open>normalizeResult\<close>)\<close>

text \<open>
  The four constants that \<^verbatim>\<open>normalizeResult\<close> resolves first. They are read past its guard,
  where \<open>r\<close> is an array or an object, so that no property access throws; \<open>opt_prop r k\<close> is
  \<^verbatim>\<open>r.k\<close> there.
\<close>

definition faviconUrl :: "jsval \<Rightarrow> jsval" where
  "faviconUrl r = or_chain
     [opt_prop r ''favicon_url'', opt_prop r ''favicon'', opt_prop r ''faviconUrl'',
      opt_prop r ''favicon_image_url'',
      opt_prop (opt_index0 (opt_prop r ''favicons'')) ''url'', JNull]"

definition faviconBase64 :: "jsval \<Rightarrow> jsval" where
  "faviconBase64 r = or_chain
     [opt_prop r ''favicon_base64'', opt_prop r ''faviconBase64'',
      opt_prop r ''favicon_data'', opt_prop r ''faviconData'', JNull]"

definition screenshotBase64 :: "jsval \<Rightarrow> jsval" where
  "screenshotBase64 r = or_chain
     [opt_prop (opt_prop r ''screenshot'') ''screenshot_base64'',
      opt_prop r ''screenshot_base64'', opt_prop r ''screenshotBase64'', JNull]"

definition screenshotUrl :: "jsval \<Rightarrow> jsval" where
  "screenshotUrl r = or_chain
     [opt_prop (opt_prop r ''screenshot'') ''image_url'',
      opt_prop r ''screenshot_url'', opt_prop r ''screenshotUrl'', JNull]"

text \<open>The template literal \<^verbatim>\<open>`data:image/png;base64,${b}`\<close>; it converts \<open>b\<close> to a string.\<close>

definition data_uri :: "runtime \<Rightarrow> jsval \<Rightarrow> jsval option" where
  "data_uri rt b = map_option (\<lambda>s. JStr (''data:image/png;base64,'' @ s)) (to_string rt b)"

text \<open>\<^verbatim>\<open>url ? url : (b ? `data:image/png;base64,${b}` : null)\<close>.\<close>

definition source_of :: "runtime \<Rightarrow> jsval \<Rightarrow> jsval \<Rightarrow> jsval option" where
  "source_of rt url b =
    (if truthy url then Some url else if truthy b then data_uri rt b else Some JNull)"

definition normalizeResult :: "runtime \<Rightarrow> jsval \<Rightarrow> jsval option" where
  "normalizeResult rt r =
    (if \<not> truthy r \<or> \<not> typeof_object r then Some r
     else do {
       favicon_src \<leftarrow> source_of rt (faviconUrl r) (faviconBase64 r);
       screenshot_src \<leftarrow> source_of rt (screenshotUrl r) (screenshotBase64 r);
       Some (spread_with r
            [(''favicon_url'', js_or (faviconUrl r) JNull),
             (''favicon_base64'', js_or (faviconBase64 r) JNull),
             (''favicon_src'', favicon_src),
             (''screenshot_src'', screenshot_src)])
     })"

section \<open>Shape detector (\<^verbatim>\<open>normalizeScanResponse\<close>)\<close>

text \<open>
  The arrow function of the three \<^verbatim>\<open>map\<close> calls:
  \<^verbatim>\<open>cat => ({ ...cat, results: Array.isArray(cat.results) ? cat.results.map(normalizeResult) : cat.results })\<close>.
  \<^verbatim>\<open>cat.results\<close> throws when \<open>cat\<close> is \<^verbatim>\<open>null\<close> or \<^verbatim>\<open>undefined\<close>.
\<close>

definition normalizeCategory :: "runtime \<Rightarrow> jsval \<Rightarrow> jsval option" where
  "normalizeCategory rt cat = do {
     results \<leftarrow> get_prop cat ''results'';
     normalized \<leftarrow>
       (if isArray results then map_option JArr (map_all (normalizeResult rt) (elems results))
        else Some results);
     Some (spread_with cat [(''results'', normalized)])
   }"

text \<open>
  \<^verbatim>\<open>Array.isArray(raw.results) && raw.results.length > 0 && raw.results[0].verdict\<close>, as a
  condition. Reading \<^verbatim>\<open>verdict\<close> throws when the first element is \<^verbatim>\<open>null\<close>.
\<close>

definition firstHasVerdict :: "jsval \<Rightarrow> bool option" where
  "firstHasVerdict results =
    (if isArray results then
       (case elems results of
          [] \<Rightarrow> Some False
        | x # xs \<Rightarrow> map_option truthy (get_prop x ''verdict''))
     else Some False)"

text \<open>
  The \<^verbatim>\<open>results\<close> of the synthetic category of the fourth shape, before normalization:
  \<^verbatim>\<open>raw.results\<close> if a sequence, else \<^verbatim>\<open>raw.items\<close> if a sequence, else nothing.
\<close>

definition result_source :: "jsval \<Rightarrow> jsval list" where
  "result_source raw =
    (if isArray (opt_prop raw ''results'') then elems (opt_prop raw ''results'')
     else if isArray (opt_prop raw ''items'') then elems (opt_prop raw ''items'')
     else [])"

definition normalizeScanResponse :: "runtime \<Rightarrow> jsval \<Rightarrow> jsval option" where
  "normalizeScanResponse rt raw =
    (if isArray raw then map_option JArr (map_all (normalizeCategory rt) (elems raw))
     else if \<not> truthy raw \<or> \<not> typeof_object raw then Some (JArr [])
     else if isArray (opt_prop raw ''categories'')
       then map_option JArr (map_all (normalizeCategory rt) (elems (opt_prop raw ''categories'')))
     else do {
       let results = opt_prop raw ''results'';
       resultsAreCategories \<leftarrow> firstHasVerdict results;
       if resultsAreCategories
         then map_option JArr (map_all (normalizeCategory rt) (elems results))
       else if truthy (opt_prop raw ''verdict'') \<or> truthy (opt_prop raw ''risk_score'')
               \<or> isArray results
         then do {
           normalized \<leftarrow> map_all (normalizeResult rt) (result_source raw);
           Some (JArr [JObj
             [(''verdict'', js_or (opt_prop raw ''verdict'') (JStr ''UNKNOWN'')),
              (''risk_score'', js_or (opt_prop raw ''risk_score'') (JNum (Fin 0))),
              (''confidence'', js_or (opt_prop raw ''confidence'') (JStr ''N/A'')),
              (''malicious_count'', js_or (opt_prop raw ''malicious_count'') (JNum (Fin 0))),
              (''total_engines'', js_or (opt_prop raw ''total_engines'') (JNum (Fin 0))),
              (''detections'',
                 if isArray (opt_prop raw ''detections'') then opt_prop raw ''detections''
                 else JArr []),
              (''results'', JArr normalized),
              (''count'',
                 js_or (opt_prop raw ''count'')
                   (if isArray results then JNum (Fin (of_nat (length (elems results))))
                    else JNum (Fin 1))),
              (''_raw'', raw)]])
         }
       else if truthy (opt_prop raw ''input_url'') \<or> truthy (opt_prop raw ''domain'')
               \<or> truthy (opt_prop raw ''ip'')
         then do {
           result \<leftarrow> normalizeResult rt raw;
           Some (JArr [JObj
             [(''verdict'', JStr ''UNKNOWN''),
              (''risk_score'', JNum (Fin 0)),
              (''confidence'', JStr ''N/A''),
              (''malicious_count'', JNum (Fin 0)),
              (''total_engines'', JNum (Fin 0)),
              (''detections'', JArr []),
              (''results'', JArr [result]),
              (''count'', JNum (Fin 1)),
              (''_raw'', raw)]])
         }
       else Some (JArr [])
     })"

section \<open>Verdict decision engine (\<^verbatim>\<open>decideVerdict\<close>)\<close>

text \<open>
  The \<^verbatim>\<open>forEach\<close> over \<^verbatim>\<open>category.results\<close>: one more for each result with
  \<^verbatim>\<open>result.risk_score && result.risk_score > 50\<close>. A \<^verbatim>\<open>null\<close> result throws, and so does a
  truthy \<^verbatim>\<open>risk_score\<close> whose conversion to a number throws.
\<close>

fun count_results :: "runtime \<Rightarrow> jsval list \<Rightarrow> nat \<Rightarrow> nat option" where
  "count_results rt [] n = Some n"
| "count_results rt (result # rest) n =
     (case get_prop result ''risk_score'' of
        None \<Rightarrow> None
      | Some s \<Rightarrow>
          if truthy s then
            (case js_gt rt s 50 of
               None \<Rightarrow> None
             | Some over \<Rightarrow> count_results rt rest (if over then n + 1 else n))
          else count_results rt rest n)"

text \<open>
  The counts after the two overrides: the pair \<open>(maliciousCount, totalEngines)\<close>.
  An explicit count is taken as it is, whatever its type.
\<close>

definition counts :: "runtime \<Rightarrow> jsval \<Rightarrow> (jsval \<times> jsval) option" where
  "counts rt category = do {
     results \<leftarrow> get_prop category ''results'';
     fromResults \<leftarrow>
       (if isArray results \<and> 0 < length (elems results)
        then count_results rt (elems results) 0 else Some 0);
     let detections = opt_prop category ''detections'';
     let hasDetections = (isArray detections \<and> 0 < length (elems detections));
     let maliciousCount =
       (if hasDetections then fromResults + length (elems detections) else fromResults);
     let totalEngines = (if hasDetections then max 0 70 else (0::nat));
     Some
       (if opt_prop category ''malicious_count'' \<noteq> JUndefined
          then opt_prop category ''malicious_count''
          else JNum (Fin (of_nat maliciousCount)),
        if opt_prop category ''total_engines'' \<noteq> JUndefined
          then opt_prop category ''total_engines''
          else JNum (Fin (of_nat totalEngines)))
   }"

text \<open>
  \<^verbatim>\<open>Math.round((maliciousCount / totalEngines) * 100)\<close>, the division and the multiplication
  being those of the runtime.
\<close>

definition percentage :: "runtime \<Rightarrow> jsnum \<Rightarrow> jsnum \<Rightarrow> jsnum" where
  "percentage rt maliciousCount totalEngines =
    math_round (float_mul rt (float_div rt maliciousCount totalEngines) (Fin 100))"

definition riskScore :: "runtime \<Rightarrow> jsval \<Rightarrow> jsval \<Rightarrow> jsval \<Rightarrow> jsval option" where
  "riskScore rt category maliciousCount totalEngines = do {
     hasEngines \<leftarrow> js_gt rt totalEngines 0;
     if hasEngines then do {
       m \<leftarrow> to_number rt maliciousCount;
       t \<leftarrow> to_number rt totalEngines;
       Some (JNum (percentage rt m t))
     }
     else if truthy (opt_prop category ''risk_score'') then Some (opt_prop category ''risk_score'')
     else Some (JNum (Fin 0))
   }"

definition classify :: "runtime \<Rightarrow> jsval \<Rightarrow> jsval \<Rightarrow> string option" where
  "classify rt score maliciousCount = do {
     malicious \<leftarrow> or_else (js_ge rt score 70) (js_ge rt maliciousCount 10);
     if malicious then Some ''MALICIOUS''
     else do {
       suspicious \<leftarrow> or_else (js_ge rt score 40) (js_ge rt maliciousCount 3);
       Some (if suspicious then ''SUSPICIOUS'' else ''CLEAN'')
     }
   }"

text \<open>
  \<^verbatim>\<open>verdictRank[v] || 0\<close>. The key is \<^verbatim>\<open>String(v)\<close>, whose conversion may throw. A key that
  names a member inherited from \<^verbatim>\<open>Object.prototype\<close> reads a function or an object, which the
  comparison \<^verbatim>\<open>currentRank > calculatedRank\<close> turns into \<^verbatim>\<open>NaN\<close>: it never wins, exactly as
  rank 0.
\<close>

definition verdictRank :: "runtime \<Rightarrow> jsval \<Rightarrow> nat option" where
  "verdictRank rt v =
    map_option
      (\<lambda>key. if key = ''MALICIOUS'' then 3
             else if key = ''SUSPICIOUS'' then 2
             else if key = ''CLEAN'' then 1
             else 0)
      (to_string rt v)"

definition mergeVerdict :: "runtime \<Rightarrow> jsval \<Rightarrow> string \<Rightarrow> jsval option" where
  "mergeVerdict rt existing computed =
    (if truthy existing then do {
       currentRank \<leftarrow> verdictRank rt existing;
       calculatedRank \<leftarrow> verdictRank rt (JStr computed);
       Some (if calculatedRank < currentRank then existing else JStr computed)
     }
     else Some (JStr computed))"

text \<open>
  What the body holds just before the escalation merge:
  \<open>(maliciousCount, totalEngines, riskScore, verdict)\<close>.
\<close>

definition assess :: "runtime \<Rightarrow> jsval \<Rightarrow> (jsval \<times> jsval \<times> jsval \<times> string) option" where
  "assess rt category = do {
     (maliciousCount, totalEngines) \<leftarrow> counts rt category;
     score \<leftarrow> riskScore rt category maliciousCount totalEngines;
     computed \<leftarrow> classify rt score maliciousCount;
     Some (maliciousCount, totalEngines, score, computed)
   }"

definition decideCategory :: "runtime \<Rightarrow> jsval \<Rightarrow> jsval option" where
  "decideCategory rt category = do {
     (maliciousCount, totalEngines, score, computed) \<leftarrow> assess rt category;
     verdict \<leftarrow> mergeVerdict rt (opt_prop category ''verdict'') computed;
     Some (spread_with category
       [(''verdict'', verdict),
        (''risk_score'',
           if opt_prop category ''risk_score'' \<noteq> JUndefined
           then opt_prop category ''risk_score'' else score),
        (''malicious_count'', maliciousCount),
        (''total_engines'', js_or totalEngines (JNum (Fin 1)))])
   }"

definition decideVerdict :: "runtime \<Rightarrow> jsval \<Rightarrow> jsval option" where
  "decideVerdict rt normalized =
    (if \<not> isArray normalized then Some normalized
     else map_option JArr (map_all (decideCategory rt) (elems normalized)))"


section \<open>WHOIS utilities\<close>

text \<open>
  \<^verbatim>\<open>Date\<close> belongs to the runtime. \<open>date_time v\<close> is the outcome of \<^verbatim>\<open>new Date(v)\<close>: the
  constructor throws (on a value whose conversion throws), or the date is invalid
  (\<^verbatim>\<open>getTime()\<close> is \<^verbatim>\<open>NaN\<close>), or it is valid, with its time in milliseconds. \<open>locale_date t\<close> is
  \<^verbatim>\<open>toLocaleDateString('en-US', ...)\<close> of a valid date. The reading of the clock,
  \<^verbatim>\<open>new Date()\<close>, is an argument \<open>now\<close> in milliseconds.
\<close>

datatype date_outcome = Throws | InvalidDate | ValidDate rat

record clock =
  date_time :: "jsval \<Rightarrow> date_outcome"
  locale_date :: "rat \<Rightarrow> string"

definition hasWhoisData :: "jsval \<Rightarrow> bool" where
  "hasWhoisData whois =
    (if \<not> truthy whois \<or> \<not> typeof_object whois then False
     else truthy (or_chain
       [opt_prop whois ''domain_name'', opt_prop whois ''domain'',
        opt_prop whois ''registrar'',
        opt_prop whois ''org'', opt_prop whois ''organization'',
        opt_prop whois ''country'',
        opt_prop whois ''creation_date'', opt_prop whois ''created'',
        opt_prop whois ''creationDate'',
        opt_prop whois ''expiration_date'', opt_prop whois ''expires'',
        opt_prop whois ''expirationDate'',
        opt_prop whois ''name_servers'', opt_prop whois ''nameServers'']))"

definition normalizeWhoisFields :: "jsval \<Rightarrow> jsval" where
  "normalizeWhoisFields whois =
    (if \<not> truthy whois then JObj []
     else JObj
       [(''domain_name'', or_chain [opt_prop whois ''domain_name'', opt_prop whois ''domain'',
           opt_prop whois ''domainName'']),
        (''registrar'', or_chain [opt_prop whois ''registrar'',
           opt_prop whois ''sponsoring_registrar'']),
        (''org'', or_chain [opt_prop whois ''org'', opt_prop whois ''organization'',
           opt_prop whois ''registrant_organization'', opt_prop whois ''registrant_org'']),
        (''country'', or_chain [opt_prop whois ''country'', opt_prop whois ''registrant_country'']),
        (''state'', or_chain [opt_prop whois ''state'', opt_prop whois ''registrant_state'']),
        (''city'', or_chain [opt_prop whois ''city'', opt_prop whois ''registrant_city'']),
        (''creation_date'', or_chain [opt_prop whois ''creation_date'', opt_prop whois ''created'',
           opt_prop whois ''creationDate'', opt_prop whois ''created_date'']),
        (''updated_date'', or_chain [opt_prop whois ''updated_date'', opt_prop whois ''updated'',
           opt_prop whois ''updatedDate'', opt_prop whois ''last_updated'']),
        (''expiration_date'', or_chain [opt_prop whois ''expiration_date'',
           opt_prop whois ''expires'', opt_prop whois ''expirationDate'',
           opt_prop whois ''expiry_date'']),
        (''name_servers'', or_chain [opt_prop whois ''name_servers'',
           opt_prop whois ''nameServers'', opt_prop whois ''nserver'']),
        (''status'', or_chain [opt_prop whois ''status'', opt_prop whois ''domain_status'',
           opt_prop whois ''domainStatus'']),
        (''registrant_name'', or_chain [opt_prop whois ''registrant_name'',
           opt_prop whois ''registrant'']),
        (''registrant_email'', or_chain [opt_prop whois ''registrant_email'',
           opt_prop whois ''email'']),
        (''dnssec'', opt_prop whois ''dnssec'')])"

text \<open>\<^verbatim>\<open>Array.isArray(d) ? d[0] : d\<close>; the first element of an empty array is \<^verbatim>\<open>undefined\<close>.\<close>

definition first_date :: "jsval \<Rightarrow> jsval" where
  "first_date dateValue =
    (if isArray dateValue
     then (case elems dateValue of [] \<Rightarrow> JUndefined | x # xs \<Rightarrow> x)
     else dateValue)"

text \<open>In each of the four date functions the \<^verbatim>\<open>catch\<close> block returns \<^verbatim>\<open>null\<close>.\<close>

definition formatWhoisDate :: "clock \<Rightarrow> jsval \<Rightarrow> jsval" where
  "formatWhoisDate clk dateValue =
    (if \<not> truthy dateValue then JNull
     else let dateStr = first_date dateValue in
       if \<not> truthy dateStr then JNull
       else (case date_time clk dateStr of
               Throws \<Rightarrow> JNull
             | InvalidDate \<Rightarrow> dateStr
             | ValidDate t \<Rightarrow> JStr (locale_date clk t)))"

definition calculateDomainAge :: "runtime \<Rightarrow> clock \<Rightarrow> rat \<Rightarrow> jsval \<Rightarrow> jsval" where
  "calculateDomainAge rt clk now creationDate =
    (if \<not> truthy creationDate then JNull
     else let dateStr = first_date creationDate in
       if \<not> truthy dateStr then JNull
       else (case date_time clk dateStr of
               Throws \<Rightarrow> JNull
             | InvalidDate \<Rightarrow> JNull
             | ValidDate created \<Rightarrow>
                 let ageMs = float_sub rt (Fin now) (Fin created);
                     ageYears = float_div rt ageMs (Fin (1000 * 60 * 60 * 24 * (36525 / 100)))
                 in JNum (float_div rt (math_round (float_mul rt ageYears (Fin 10))) (Fin 10))))"

definition calculateDomainAgeInDays :: "runtime \<Rightarrow> clock \<Rightarrow> rat \<Rightarrow> jsval \<Rightarrow> jsval" where
  "calculateDomainAgeInDays rt clk now creationDate =
    (if \<not> truthy creationDate then JNull
     else let dateStr = first_date creationDate in
       if \<not> truthy dateStr then JNull
       else (case date_time clk dateStr of
               Throws \<Rightarrow> JNull
             | InvalidDate \<Rightarrow> JNull
             | ValidDate created \<Rightarrow>
                 let ageMs = float_sub rt (Fin now) (Fin created)
                 in JNum (math_floor (float_div rt ageMs (Fin (1000 * 60 * 60 * 24))))))"

definition daysUntilExpiration :: "runtime \<Rightarrow> clock \<Rightarrow> rat \<Rightarrow> jsval \<Rightarrow> jsval" where
  "daysUntilExpiration rt clk now expirationDate =
    (if \<not> truthy expirationDate then JNull
     else let dateStr = first_date expirationDate in
       if \<not> truthy dateStr then JNull
       else (case date_time clk dateStr of
               Throws \<Rightarrow> JNull
             | InvalidDate \<Rightarrow> JNull
             | ValidDate expires \<Rightarrow>
                 let diffMs = float_sub rt (Fin expires) (Fin now)
                 in JNum (math_floor (float_div rt diffMs (Fin (1000 * 60 * 60 * 24))))))"

text \<open>
  \<^verbatim>\<open>days !== null && days < 0\<close>, where \<open>days\<close> is \<^verbatim>\<open>null\<close> or a number.
\<close>

definition isDomainExpired :: "runtime \<Rightarrow> clock \<Rightarrow> rat \<Rightarrow> jsval \<Rightarrow> bool" where
  "isDomainExpired rt clk now expirationDate =
    (case daysUntilExpiration rt clk now expirationDate of
       JNum days \<Rightarrow> num_lt days (Fin 0)
     | other \<Rightarrow> False)"

definition isDomainExpiringSoon :: "runtime \<Rightarrow> clock \<Rightarrow> rat \<Rightarrow> jsval \<Rightarrow> bool" where
  "isDomainExpiringSoon rt clk now expirationDate =
    (case daysUntilExpiration rt clk now expirationDate of
       JNum days \<Rightarrow> num_ge days (Fin 0) \<and> num_ge (Fin 30) days
     | other \<Rightarrow> False)"

fun is_string :: "jsval \<Rightarrow> bool" where
  "is_string (JStr s) = True"
| "is_string v = False"

definition formatNameServers :: "jsval \<Rightarrow> jsval" where
  "formatNameServers nameServers =
    (if \<not> truthy nameServers then JArr []
     else if isArray nameServers
       then JArr (filter (\<lambda>ns. truthy ns \<and> is_string ns) (elems nameServers))
     else if is_string nameServers then JArr [nameServers]
     else JArr [])"

definition getRegistrantInfo :: "jsval \<Rightarrow> jsval" where
  "getRegistrantInfo whois =
    (if \<not> truthy whois then JNull
     else JObj
       [(''name'', or_chain [opt_prop whois ''registrant_name'', opt_prop whois ''registrant'',
           JNull]),
        (''organization'', or_chain [opt_prop whois ''org'',
           opt_prop whois ''registrant_organization'', JNull]),
        (''email'', or_chain [opt_prop whois ''registrant_email'', opt_prop whois ''email'',
           JNull]),
        (''country'', or_chain [opt_prop whois ''country'', opt_prop whois ''registrant_country'',
           JNull]),
        (''state'', or_chain [opt_prop whois ''state'', opt_prop whois ''registrant_state'',
           JNull]),
        (''city'', or_chain [opt_prop whois ''city'', opt_prop whois ''registrant_city'',
           JNull])])"

definition getDomainStatus :: "jsval \<Rightarrow> jsval" where
  "getDomainStatus whois =
    (if \<not> truthy whois then JArr []
     else let status = or_chain [opt_prop whois ''status'', opt_prop whois ''domain_status''] in
       if isArray status then JArr (filter (\<lambda>s. truthy s \<and> is_string s) (elems status))
       else if is_string status then JArr [status]
       else JArr [])"

text \<open>
  \<^verbatim>\<open>parseWhoisData\<close> reads the clock up to five times; \<open>now i\<close> is the reading at the
  \<open>i\<close>-th place of the body that may take one.
\<close>

definition parseWhoisData :: "runtime \<Rightarrow> clock \<Rightarrow> (nat \<Rightarrow> rat) \<Rightarrow> jsval \<Rightarrow> jsval" where
  "parseWhoisData rt clk now whois =
    (if \<not> hasWhoisData whois then JNull
     else
       let normalized = normalizeWhoisFields whois;
           domainAge = calculateDomainAge rt clk (now 0) (opt_prop normalized ''creation_date'');
           domainAgeInDays =
             calculateDomainAgeInDays rt clk (now 1) (opt_prop normalized ''creation_date'');
           daysToExpiry = daysUntilExpiration rt clk (now 2) (opt_prop normalized ''expiration_date'')
       in JObj
         [(''domain'', js_or (opt_prop normalized ''domain_name'') JNull),
          (''registrar'', js_or (opt_prop normalized ''registrar'') JNull),
          (''registrant'', getRegistrantInfo normalized),
          (''dates'', JObj
             [(''created'', formatWhoisDate clk (opt_prop normalized ''creation_date'')),
              (''updated'', formatWhoisDate clk (opt_prop normalized ''updated_date'')),
              (''expires'', formatWhoisDate clk (opt_prop normalized ''expiration_date'')),
              (''age'', domainAge),
              (''ageInDays'', domainAgeInDays),
              (''daysToExpiry'', daysToExpiry)]),
          (''nameServers'', formatNameServers (opt_prop normalized ''name_servers'')),
          (''status'', getDomainStatus normalized),
          (''dnssec'', js_or (opt_prop normalized ''dnssec'') JNull),
          (''isExpired'',
             JBool (isDomainExpired rt clk (now 3) (opt_prop normalized ''expiration_date''))),
          (''isExpiringSoon'',
             JBool (isDomainExpiringSoon rt clk (now 4) (opt_prop normalized ''expiration_date''))),
          (''raw'', whois)])"

section \<open>Vocabulary of the specification\<close>

text \<open>The three canonical verdict literals.\<close>

definition canonical_verdict :: "jsval \<Rightarrow> bool" where
  "canonical_verdict v = (v = JStr ''CLEAN'' \<or> v = JStr ''SUSPICIOUS'' \<or> v = JStr ''MALICIOUS'')"

text \<open>
  The severity rank of the specification: \<open>CLEAN = 1 < SUSPICIOUS = 2 < MALICIOUS = 3\<close>;
  any other value has no rank, written 0.
\<close>

definition severity :: "jsval \<Rightarrow> nat" where
  "severity v =
    (if v = JStr ''MALICIOUS'' then 3
     else if v = JStr ''SUSPICIOUS'' then 2
     else if v = JStr ''CLEAN'' then 1
     else 0)"

text \<open>
  A verdict field whose property key is the value as written: any value but an array,
  whose key is built from its elements, and a non-zero number, whose key the runtime
  prints. The verdicts of the data model, which are strings, are among them.
\<close>

fun plain_verdict :: "jsval \<Rightarrow> bool" where
  "plain_verdict (JArr xs) = False"
| "plain_verdict (JNum n) = (n = Fin 0 \<or> n = NaN)"
| "plain_verdict v = True"

text \<open>The field \<open>k\<close> of a returned value.\<close>

definition out_field :: "jsval option \<Rightarrow> string \<Rightarrow> jsval option" where
  "out_field res k = Option.bind res (\<lambda>v. get_prop v k)"


text \<open>Whether an object has an own property \<open>k\<close>.\<close>

definition has_field :: "jsval \<Rightarrow> string \<Rightarrow> bool" where
  "has_field v k = (k \<in> fst ` set (own_props v))"


text \<open>The four properties that \<^verbatim>\<open>normalizeResult\<close> writes.\<close>

definition canonical_keys :: "string set" where
  "canonical_keys = {''favicon_url'', ''favicon_base64'', ''favicon_src'', ''screenshot_src''}"

section \<open>Example values\<close>

text \<open>
  A runtime and a clock for the examples. The runtime of the examples divides, multiplies
  and subtracts exactly, a zero divisor being taken as \<open>+0\<close>; in every example below the
  double arithmetic gives the same rounded result. No example converts between strings and
  numbers; the clock knows one date, 2024-01-01T00:00:00Z.
\<close>

fun exact_div :: "jsnum \<Rightarrow> jsnum \<Rightarrow> jsnum" where
  "exact_div NaN y = NaN"
| "exact_div x NaN = NaN"
| "exact_div (Fin a) (Fin b) =
     (if b \<noteq> 0 then Fin (a / b) else if a = 0 then NaN else if 0 < a then PosInf else NegInf)"
| "exact_div (Fin a) y = Fin 0"
| "exact_div x (Fin b) = (if (x = PosInf) = (0 \<le> b) then PosInf else NegInf)"
| "exact_div x y = NaN"

fun exact_mul :: "jsnum \<Rightarrow> jsnum \<Rightarrow> jsnum" where
  "exact_mul NaN y = NaN"
| "exact_mul x NaN = NaN"
| "exact_mul (Fin a) (Fin b) = Fin (a * b)"
| "exact_mul (Fin a) y = (if a = 0 then NaN else if (0 < a) = (y = PosInf) then PosInf else NegInf)"
| "exact_mul x (Fin b) = (if b = 0 then NaN else if (0 < b) = (x = PosInf) then PosInf else NegInf)"
| "exact_mul x y = (if x = y then PosInf else NegInf)"

fun exact_sub :: "jsnum \<Rightarrow> jsnum \<Rightarrow> jsnum" where
  "exact_sub NaN y = NaN"
| "exact_sub x NaN = NaN"
| "exact_sub (Fin a) (Fin b) = Fin (a - b)"
| "exact_sub (Fin a) y = (if y = PosInf then NegInf else PosInf)"
| "exact_sub x (Fin b) = x"
| "exact_sub x y = (if x = y then NaN else x)"

definition example_runtime :: runtime where
  "example_runtime =
    \<lparr>str_to_num = (\<lambda>s. NaN), num_to_str = (\<lambda>n. ''NaN''),
     float_div = exact_div, float_mul = exact_mul, float_sub = exact_sub\<rparr>"

definition example_clock :: clock where
  "example_clock =
    \<lparr>date_time =
       (\<lambda>v. if v = JStr ''2024-01-01'' then ValidDate 1704067200000 else InvalidDate),
     locale_date = (\<lambda>t. ''Jan 1, 2024'')\<rparr>"

text \<open>A clock that reads 2025-01-01T00:00:00Z at every place.\<close>

definition example_now :: "nat \<Rightarrow> rat" where
  "example_now i = 1735689600000"

text \<open>The category of \<^verbatim>\<open>SAMPLE_RESPONSE\<close> (\<^verbatim>\<open>sampleResponse.js\<close>).\<close>

definition sample_category :: jsval where
  "sample_category = JObj
    [(''verdict'', JStr ''SUSPICIOUS''),
     (''risk_score'', JNum (Fin 66)),
     (''confidence'', JStr ''Medium''),
     (''malicious_count'', JNum (Fin 2)),
     (''total_engines'', JNum (Fin 60)),
     (''detections'', JArr
        [JObj [(''engine'', JStr ''AV-Test''), (''result'', JStr ''suspicious''),
               (''threat_type'', JStr ''phishing'')],
         JObj [(''engine'', JStr ''MalDetect''), (''result'', JStr ''malicious''),
               (''threat_type'', JStr ''malware'')]]),
     (''results'', JArr
        [JObj
           [(''input_url'', JStr ''https://example-bad.com''),
            (''domain'', JStr ''example-bad.com''),
            (''ip'', JStr ''198.51.100.42''),
            (''whois'', JObj
               [(''registrar'', JStr ''BadRegistrar''), (''org'', JStr ''BadCo''),
                (''country'', JStr ''US''), (''creation_date'', JArr [JStr ''2024-01-01''])]),
            (''dns'', JObj
               [(''A'', JArr [JStr ''198.51.100.42'']), (''MX'', JArr []),
                (''NS'', JArr [JStr ''ns1.bad.com''])]),
            (''ssl'', JObj
               [(''subject'', JArr [JArr [JStr ''CN'', JStr ''example-bad.com'']]),
                (''issuer'', JArr [JArr [JStr ''C'', JStr ''Fake CA'']]),
                (''notBefore'', JStr ''2024-01-01''), (''notAfter'', JStr ''2025-01-01'')]),
            (''favicon_url'', JNull),
            (''screenshot'', JObj [(''image_url'', JNull)])]]),
     (''count'', JNum (Fin 1))]"

definition SAMPLE_RESPONSE :: jsval where
  "SAMPLE_RESPONSE = JArr [sample_category]"

section \<open>Objects: reading a property after a spread\<close>

lemma get_prop_spread_with:
  "get_prop (spread_with v kvs) k =
     Some (case map_of (set_props (own_props v) kvs) k of None \<Rightarrow> JUndefined | Some x \<Rightarrow> x)"
  by (simp add: spread_with_def)

lemma set_props_Cons: "set_props ps ((k, v) # kvs) = set_props (AList.update k v ps) kvs"
  by (simp add: set_props_def)

lemma map_of_set_props:
  "map_of (set_props ps kvs) k =
     (case map_of (rev kvs) k of None \<Rightarrow> map_of ps k | Some v \<Rightarrow> Some v)"
proof (induction kvs arbitrary: ps)
  case Nil
  show ?case by (simp add: set_props_def)
next
  case (Cons kv kvs)
  obtain k' v' where kv: "kv = (k', v')" by (cases kv)
  show ?case
    by (simp add: kv set_props_Cons Cons.IH update_conv' map_add_def split: option.splits)
qed

lemma keys_set_props:
  "fst ` set (set_props ps kvs) = fst ` set ps \<union> fst ` set kvs"
proof (induction kvs arbitrary: ps)
  case Nil
  show ?case by (simp add: set_props_def)
next
  case (Cons kv kvs)
  obtain k v where kv: "kv = (k, v)" by (cases kv)
  show ?case
    by (auto simp: kv set_props_Cons Cons.IH dom_update)
qed


section \<open>The verdict decision engine\<close>

lemma decideCategory_fields:
  assumes "decideCategory rt c = Some out"
  shows "\<exists>m t s v w. assess rt c = Some (m, t, s, v)
     \<and> mergeVerdict rt (opt_prop c ''verdict'') v = Some w
     \<and> out = spread_with c
       [(''verdict'', w),
        (''risk_score'',
           if opt_prop c ''risk_score'' \<noteq> JUndefined then opt_prop c ''risk_score'' else s),
        (''malicious_count'', m),
        (''total_engines'', js_or t (JNum (Fin 1)))]"
proof (cases "assess rt c")
  case None
  with assms show ?thesis by (simp add: decideCategory_def)
next
  case (Some a)
  obtain m t s v where a: "a = (m, t, s, v)" by (cases a)
  show ?thesis
  proof (cases "mergeVerdict rt (opt_prop c ''verdict'') v")
    case None
    with assms show ?thesis
      unfolding decideCategory_def Some a by simp
  next
    case w: (Some w)
    from assms show ?thesis
      unfolding decideCategory_def Some a by (simp add: w)
  qed
qed

lemma assess_parts:
  "assess rt c = Some (m, t, s, v) \<longleftrightarrow>
     counts rt c = Some (m, t) \<and> riskScore rt c m t = Some s \<and> classify rt s m = Some v"
  by (auto simp: assess_def split: Option.bind_splits)

lemma decided_verdict:
  assumes "decideCategory rt c = Some out" and "assess rt c = Some (m, t, s, v)"
  shows "mergeVerdict rt (opt_prop c ''verdict'') v = Some (opt_prop out ''verdict'')"
  using decideCategory_fields [OF assms(1)] assms(2)
  by (auto simp: opt_prop_def get_prop_spread_with map_of_set_props)

lemma decided_risk_score:
  assumes "decideCategory rt c = Some out" and "assess rt c = Some (m, t, s, v)"
  shows "get_prop out ''risk_score'' =
      Some (if opt_prop c ''risk_score'' \<noteq> JUndefined then opt_prop c ''risk_score'' else s)"
  using decideCategory_fields [OF assms(1)] assms(2)
  by (auto simp: get_prop_spread_with map_of_set_props)


lemma decided_assessed:
  assumes "decideCategory rt c = Some out"
  shows "\<exists>m t s v. assess rt c = Some (m, t, s, v)"
  using decideCategory_fields [OF assms] by blast

lemma riskScore_value:
  assumes "riskScore rt c m t = Some s"
  shows "\<exists>tn. to_number rt t = Some tn \<and>
    (if num_gt tn (Fin 0) then \<exists>mn. to_number rt m = Some mn \<and> s = JNum (percentage rt mn tn)
     else s = (if truthy (opt_prop c ''risk_score'') then opt_prop c ''risk_score''
               else JNum (Fin 0)))"
proof (cases "to_number rt t")
  case None
  with assms show ?thesis by (simp add: riskScore_def js_gt_def)
next
  case (Some tn)
  show ?thesis
  proof (cases "num_gt tn (Fin 0)")
    case True
    with assms Some show ?thesis
      by (cases "to_number rt m") (simp_all add: riskScore_def js_gt_def)
  next
    case False
    with assms Some show ?thesis
      by (auto simp: riskScore_def js_gt_def)
  qed
qed

lemma floor_numeral_div:
  "\<lfloor>(numeral a :: rat) / numeral b\<rfloor> = numeral a div numeral b"
  using floor_divide_of_int_eq [of "numeral a" "numeral b", where ?'a = rat] by simp

lemma example_percentage:
  "percentage example_runtime (Fin 2) (Fin 60) = Fin 3"
  "percentage example_runtime (Fin 7) (Fin 10) = Fin 70"
  "percentage example_runtime (Fin 1) (Fin 1) = Fin 100"
  by (simp_all add: percentage_def example_runtime_def floor_numeral_div)

lemma sample_counts:
  "counts example_runtime sample_category = Some (JNum (Fin 2), JNum (Fin 60))"
  by (simp add: counts_def sample_category_def opt_prop_def js_gt_def)

lemma sample_assess:
  "assess example_runtime sample_category =
     Some (JNum (Fin 2), JNum (Fin 60), JNum (Fin 3), ''CLEAN'')"
  by (simp add: assess_def sample_counts riskScore_def js_gt_def num_gt_def example_percentage
      classify_def or_else_def js_ge_def num_ge_def)

lemma counted_counts:
  "counts rt (JObj [(''malicious_count'', JNum (Fin 7)), (''total_engines'', JNum (Fin 10))])
     = Some (JNum (Fin 7), JNum (Fin 10))"
  by (simp add: counts_def opt_prop_def)

lemma counted_assess:
  "assess example_runtime
       (JObj [(''malicious_count'', JNum (Fin 7)), (''total_engines'', JNum (Fin 10))])
     = Some (JNum (Fin 7), JNum (Fin 10), JNum (Fin 70), ''MALICIOUS'')"
  by (simp add: assess_def counted_counts riskScore_def js_gt_def num_gt_def example_percentage
      classify_def or_else_def js_ge_def num_ge_def)

lemma counted_decided:
  "decideCategory example_runtime
       (JObj [(''malicious_count'', JNum (Fin 7)), (''total_engines'', JNum (Fin 10))])
     = Some (JObj [(''malicious_count'', JNum (Fin 7)), (''total_engines'', JNum (Fin 10)),
                   (''verdict'', JStr ''MALICIOUS''), (''risk_score'', JNum (Fin 70))])"
  by (simp add: decideCategory_def counted_assess spread_with_def set_props_def opt_prop_def
      mergeVerdict_def js_or_def)

subsection \<open>The risk score of the output\<close>

text \<open>
  C1, as the code has it. \<^verbatim>\<open>decideVerdict\<close> returns
  \<^verbatim>\<open>risk_score: category.risk_score !== undefined ? category.risk_score : riskScore\<close>:
  the output \<^verbatim>\<open>risk_score\<close> of a category is the category's own \<^verbatim>\<open>risk_score\<close> whenever it
  has one, whatever the counts say. Only a category without one gets the recomputed score:
  \<^verbatim>\<open>Math.round((maliciousCount / totalEngines) * 100)\<close>, as the runtime computes it, when the
  (possibly overridden) \<open>totalEngines\<close> is greater than 0, and 0 otherwise.
\<close>

theorem risk_score_output:
  assumes "decideCategory rt c = Some out" and "counts rt c = Some (m, t)"
  shows "\<exists>tn. to_number rt t = Some tn \<and>
    (if opt_prop c ''risk_score'' \<noteq> JUndefined
       then get_prop out ''risk_score'' = Some (opt_prop c ''risk_score'')
     else if num_gt tn (Fin 0)
       then \<exists>mn. to_number rt m = Some mn
              \<and> get_prop out ''risk_score'' = Some (JNum (percentage rt mn tn))
     else get_prop out ''risk_score'' = Some (JNum (Fin 0)))"
proof -
  from decided_assessed [OF assms(1)] assms(2) obtain s v where
    a: "assess rt c = Some (m, t, s, v)"
    by (auto simp: assess_parts)
  then have "riskScore rt c m t = Some s"
    by (simp add: assess_parts)
  from riskScore_value [OF this] obtain tn where
    tn: "to_number rt t = Some tn" and
    s: "if num_gt tn (Fin 0)
        then \<exists>mn. to_number rt m = Some mn \<and> s = JNum (percentage rt mn tn)
        else s = (if truthy (opt_prop c ''risk_score'') then opt_prop c ''risk_score''
               else JNum (Fin 0))"
    by blast
  have "if opt_prop c ''risk_score'' \<noteq> JUndefined
       then get_prop out ''risk_score'' = Some (opt_prop c ''risk_score'')
     else if num_gt tn (Fin 0)
       then \<exists>mn. to_number rt m = Some mn
              \<and> get_prop out ''risk_score'' = Some (JNum (percentage rt mn tn))
     else get_prop out ''risk_score'' = Some (JNum (Fin 0))"
    using s by (auto simp: decided_risk_score [OF assms(1) a])
  with tn show ?thesis by blast
qed

theorem risk_score_output_witness:
  "decideCategory example_runtime
       (JObj [(''malicious_count'', JNum (Fin 7)), (''total_engines'', JNum (Fin 10))])
     = Some (JObj [(''malicious_count'', JNum (Fin 7)), (''total_engines'', JNum (Fin 10)),
                   (''verdict'', JStr ''MALICIOUS''), (''risk_score'', JNum (Fin 70))])
   \<and> counts example_runtime
       (JObj [(''malicious_count'', JNum (Fin 7)), (''total_engines'', JNum (Fin 10))])
     = Some (JNum (Fin 7), JNum (Fin 10))
   \<and> percentage example_runtime (Fin 7) (Fin 10) = Fin 70
   \<and> get_prop (JObj [(''malicious_count'', JNum (Fin 7)), (''total_engines'', JNum (Fin 10)),
                   (''verdict'', JStr ''MALICIOUS''), (''risk_score'', JNum (Fin 70))])
       ''risk_score'' = Some (JNum (percentage example_runtime (Fin 7) (Fin 10)))"
proof -
  let ?c = "JObj [(''malicious_count'', JNum (Fin 7)), (''total_engines'', JNum (Fin 10))]"
  let ?out = "JObj [(''malicious_count'', JNum (Fin 7)), (''total_engines'', JNum (Fin 10)),
                   (''verdict'', JStr ''MALICIOUS''), (''risk_score'', JNum (Fin 70))]"
  note d = counted_decided and c = counted_counts [of example_runtime]
  have u: "opt_prop ?c ''risk_score'' = JUndefined"
    by (simp add: opt_prop_def)
  from risk_score_output [OF d c] u
  have "get_prop ?out ''risk_score'' = Some (JNum (percentage example_runtime (Fin 7) (Fin 10)))"
    by (simp add: num_gt_def)
  with d c example_percentage(2) show ?thesis by blast
qed

text \<open>
  The category of \<^verbatim>\<open>SAMPLE_RESPONSE\<close> has 2 malicious of 60 engines, so that the recomputed
  score is 3; its output keeps the \<^verbatim>\<open>risk_score\<close> 66 it came with.
\<close>

theorem risk_score_recomputed_counterexample:
  "counts example_runtime sample_category = Some (JNum (Fin 2), JNum (Fin 60))
   \<and> num_gt (Fin 60) (Fin 0)
   \<and> percentage example_runtime (Fin 2) (Fin 60) = Fin 3
   \<and> out_field (decideCategory example_runtime sample_category) ''risk_score''
       = Some (JNum (Fin 66))
   \<and> JNum (Fin 66) \<noteq> JNum (Fin 3)"
proof -
  have "out_field (decideCategory example_runtime sample_category) ''risk_score''
       = Some (JNum (Fin 66))"
    by (simp add: out_field_def decideCategory_def sample_assess get_prop_spread_with
        map_of_set_props mergeVerdict_def verdictRank_def)
       (simp add: sample_category_def opt_prop_def)
  moreover have "num_gt (Fin 60) (Fin 0)"
    by (simp add: num_gt_def)
  moreover have "JNum (Fin 66) \<noteq> JNum (Fin 3)"
    by simp
  ultimately show ?thesis
    using sample_counts example_percentage(1) by blast
qed

subsection \<open>The computed verdict\<close>

lemma js_ge_number: "js_ge rt (JNum (Fin a)) n = Some (n \<le> a)"
  by (auto simp: js_ge_def num_ge_def)

lemma classify_numbers:
  "\<exists>v. classify rt (JNum (Fin a)) (JNum (Fin b)) = Some v"
  by (simp add: classify_def js_ge_number or_else_def)

lemma assess_no_engines:
  "assess rt (JObj [(''risk_score'', JNum (Fin r)), (''malicious_count'', JNum (Fin k))]) =
     map_option (\<lambda>v. (JNum (Fin k), JNum (Fin 0), JNum (Fin r), v))
       (classify rt (JNum (Fin r)) (JNum (Fin k)))"
proof -
  have "counts rt (JObj [(''risk_score'', JNum (Fin r)), (''malicious_count'', JNum (Fin k))])
      = Some (JNum (Fin k), JNum (Fin 0))"
    by (simp add: counts_def opt_prop_def)
  moreover have "riskScore rt
       (JObj [(''risk_score'', JNum (Fin r)), (''malicious_count'', JNum (Fin k))])
       (JNum (Fin k)) (JNum (Fin 0)) = Some (JNum (Fin r))"
    by (simp add: riskScore_def js_gt_def num_gt_def opt_prop_def)
  ultimately show ?thesis
    by (cases "classify rt (JNum (Fin r)) (JNum (Fin k))") (simp_all add: assess_def)
qed

lemma or_else_true:
  assumes "or_else a b = Some x"
  shows "x \<longleftrightarrow> a = Some True \<or> b = Some True"
  using assms by (cases a) (auto simp: or_else_def split: if_splits)

lemma classify_cases:
  assumes "classify rt s m = Some v"
  shows "\<exists>mal. or_else (js_ge rt s 70) (js_ge rt m 10) = Some mal \<and>
     (if mal then v = ''MALICIOUS''
      else \<exists>sus. or_else (js_ge rt s 40) (js_ge rt m 3) = Some sus
             \<and> v = (if sus then ''SUSPICIOUS'' else ''CLEAN''))"
proof (cases "or_else (js_ge rt s 70) (js_ge rt m 10)")
  case None
  with assms show ?thesis by (simp add: classify_def)
next
  case (Some mal)
  show ?thesis
  proof (cases mal)
    case True
    with assms Some have "v = ''MALICIOUS''" by (simp add: classify_def)
    with Some True show ?thesis by auto
  next
    case False
    with assms Some show ?thesis
      by (cases "or_else (js_ge rt s 40) (js_ge rt m 3)") (auto simp: classify_def)
  qed
qed

text \<open>
  C2, as the code has it. The freshly computed verdict is \<open>MALICIOUS\<close> iff
  \<open>riskScore \<ge> 70\<close> or \<open>maliciousCount \<ge> 10\<close>; otherwise \<open>SUSPICIOUS\<close> iff
  \<open>riskScore \<ge> 40\<close> or \<open>maliciousCount \<ge> 3\<close>; otherwise \<open>CLEAN\<close>. In particular
  \<open>riskScore = 69\<close> with \<open>maliciousCount = 2\<close> yields \<open>SUSPICIOUS\<close> (69 is at least 40),
  \<open>riskScore = 39\<close> with \<open>maliciousCount = 2\<close> yields \<open>CLEAN\<close>, \<open>riskScore = 70\<close> yields
  \<open>MALICIOUS\<close>, and \<open>riskScore = 40\<close> with \<open>maliciousCount = 0\<close> yields \<open>SUSPICIOUS\<close>.
  The comparisons are JavaScript's \<^verbatim>\<open>>=\<close>; a comparison holds when it returns \<^verbatim>\<open>true\<close>.
\<close>

theorem computed_verdict_thresholds:
  assumes "assess rt c = Some (m, t, s, v)"
  shows "(v = ''MALICIOUS'' \<longleftrightarrow> js_ge rt s 70 = Some True \<or> js_ge rt m 10 = Some True)
    \<and> (v = ''SUSPICIOUS'' \<longleftrightarrow>
         \<not> (js_ge rt s 70 = Some True \<or> js_ge rt m 10 = Some True)
         \<and> (js_ge rt s 40 = Some True \<or> js_ge rt m 3 = Some True))
    \<and> (v = ''CLEAN'' \<longleftrightarrow>
         \<not> (js_ge rt s 70 = Some True \<or> js_ge rt m 10 = Some True)
         \<and> \<not> (js_ge rt s 40 = Some True \<or> js_ge rt m 3 = Some True))
    \<and> (s = JNum (Fin 69) \<and> m = JNum (Fin 2) \<longrightarrow> v = ''SUSPICIOUS'')
    \<and> (s = JNum (Fin 39) \<and> m = JNum (Fin 2) \<longrightarrow> v = ''CLEAN'')
    \<and> (s = JNum (Fin 70) \<longrightarrow> v = ''MALICIOUS'')
    \<and> (s = JNum (Fin 40) \<and> m = JNum (Fin 0) \<longrightarrow> v = ''SUSPICIOUS'')"
proof -
  let ?M = "js_ge rt s 70 = Some True \<or> js_ge rt m 10 = Some True"
  let ?S = "js_ge rt s 40 = Some True \<or> js_ge rt m 3 = Some True"
  from assms have "classify rt s m = Some v"
    by (simp add: assess_parts)
  from classify_cases [OF this] obtain mal where
    mal: "or_else (js_ge rt s 70) (js_ge rt m 10) = Some mal" and
    rest: "if mal then v = ''MALICIOUS''
      else \<exists>sus. or_else (js_ge rt s 40) (js_ge rt m 3) = Some sus
             \<and> v = (if sus then ''SUSPICIOUS'' else ''CLEAN'')"
    by blast
  note M = or_else_true [OF mal]
  have v: "v = (if ?M then ''MALICIOUS'' else if ?S then ''SUSPICIOUS'' else ''CLEAN'')"
  proof (cases mal)
    case True
    with rest M show ?thesis by simp
  next
    case False
    with rest obtain sus where
      sus: "or_else (js_ge rt s 40) (js_ge rt m 3) = Some sus" and
      v': "v = (if sus then ''SUSPICIOUS'' else ''CLEAN'')"
      by auto
    from False M have "\<not> ?M" by simp
    with v' or_else_true [OF sus] show ?thesis
      by (simp only: if_False)
  qed
  have 1: "v = ''MALICIOUS'' \<longleftrightarrow> ?M"
    by (subst v) simp
  have 2: "v = ''SUSPICIOUS'' \<longleftrightarrow> \<not> ?M \<and> ?S"
    by (subst v) simp
  have 3: "v = ''CLEAN'' \<longleftrightarrow> \<not> ?M \<and> \<not> ?S"
    by (subst v) simp
  have 4: "s = JNum (Fin 69) \<and> m = JNum (Fin 2) \<longrightarrow> v = ''SUSPICIOUS''"
    by (subst v) (simp add: js_ge_number)
  have 5: "s = JNum (Fin 39) \<and> m = JNum (Fin 2) \<longrightarrow> v = ''CLEAN''"
    by (subst v) (simp add: js_ge_number)
  have 6: "s = JNum (Fin 70) \<longrightarrow> v = ''MALICIOUS''"
    by (subst v) (simp add: js_ge_number)
  have 7: "s = JNum (Fin 40) \<and> m = JNum (Fin 0) \<longrightarrow> v = ''SUSPICIOUS''"
    by (subst v) (simp add: js_ge_number)
  show ?thesis
    using 1 2 3 4 5 6 7 by blast
qed

theorem computed_verdict_thresholds_witness:
  "assess example_runtime
       (JObj [(''risk_score'', JNum (Fin 69)), (''malicious_count'', JNum (Fin 2))])
     = Some (JNum (Fin 2), JNum (Fin 0), JNum (Fin 69), ''SUSPICIOUS'')
   \<and> assess example_runtime
       (JObj [(''risk_score'', JNum (Fin 39)), (''malicious_count'', JNum (Fin 2))])
     = Some (JNum (Fin 2), JNum (Fin 0), JNum (Fin 39), ''CLEAN'')
   \<and> assess example_runtime
       (JObj [(''risk_score'', JNum (Fin 70)), (''malicious_count'', JNum (Fin 0))])
     = Some (JNum (Fin 0), JNum (Fin 0), JNum (Fin 70), ''MALICIOUS'')
   \<and> assess example_runtime
       (JObj [(''risk_score'', JNum (Fin 40)), (''malicious_count'', JNum (Fin 0))])
     = Some (JNum (Fin 0), JNum (Fin 0), JNum (Fin 40), ''SUSPICIOUS'')"
proof -
  obtain v69 where a69: "assess example_runtime
       (JObj [(''risk_score'', JNum (Fin 69)), (''malicious_count'', JNum (Fin 2))])
     = Some (JNum (Fin 2), JNum (Fin 0), JNum (Fin 69), v69)"
    using classify_numbers [of example_runtime 69 2] by (auto simp: assess_no_engines)
  obtain v39 where a39: "assess example_runtime
       (JObj [(''risk_score'', JNum (Fin 39)), (''malicious_count'', JNum (Fin 2))])
     = Some (JNum (Fin 2), JNum (Fin 0), JNum (Fin 39), v39)"
    using classify_numbers [of example_runtime 39 2] by (auto simp: assess_no_engines)
  obtain v70 where a70: "assess example_runtime
       (JObj [(''risk_score'', JNum (Fin 70)), (''malicious_count'', JNum (Fin 0))])
     = Some (JNum (Fin 0), JNum (Fin 0), JNum (Fin 70), v70)"
    using classify_numbers [of example_runtime 70 0] by (auto simp: assess_no_engines)
  obtain v40 where a40: "assess example_runtime
       (JObj [(''risk_score'', JNum (Fin 40)), (''malicious_count'', JNum (Fin 0))])
     = Some (JNum (Fin 0), JNum (Fin 0), JNum (Fin 40), v40)"
    using classify_numbers [of example_runtime 40 0] by (auto simp: assess_no_engines)
  have "v69 = ''SUSPICIOUS''"
    using computed_verdict_thresholds [OF a69] by simp
  moreover have "v39 = ''CLEAN''"
    using computed_verdict_thresholds [OF a39] by simp
  moreover have "v70 = ''MALICIOUS''"
    using computed_verdict_thresholds [OF a70] by simp
  moreover have "v40 = ''SUSPICIOUS''"
    using computed_verdict_thresholds [OF a40] by simp
  ultimately show ?thesis
    using a69 a39 a70 a40 by simp
qed

text \<open>
  A category with \<^verbatim>\<open>risk_score: 69\<close>, \<^verbatim>\<open>malicious_count: 2\<close> and no engines has
  \<open>riskScore = 69\<close> and \<open>maliciousCount = 2\<close>; its computed verdict is \<open>SUSPICIOUS\<close>, not
  \<open>CLEAN\<close>.
\<close>

theorem boundary_69_counterexample:
  "assess example_runtime
       (JObj [(''risk_score'', JNum (Fin 69)), (''malicious_count'', JNum (Fin 2))])
     = Some (JNum (Fin 2), JNum (Fin 0), JNum (Fin 69), ''SUSPICIOUS'')
   \<and> ''SUSPICIOUS'' \<noteq> ''CLEAN''"
  by (simp add: assess_no_engines classify_def js_ge_number or_else_def)

subsection \<open>The escalation merge\<close>

lemma verdictRank_text: "verdictRank rt (JStr x) = Some (severity (JStr x))"
  by (simp add: verdictRank_def severity_def)

lemma severity_pos_iff: "0 < severity v \<longleftrightarrow> canonical_verdict v"
  by (simp add: severity_def canonical_verdict_def)

lemma canonical_classify:
  assumes "classify rt s m = Some v"
  shows "canonical_verdict (JStr v)"
  using classify_cases [OF assms]
  by (auto simp: canonical_verdict_def split: if_splits)

lemma verdictRank_plain:
  assumes "plain_verdict e" and "truthy e" and "verdictRank rt e = Some n"
  shows "n = severity e"
proof (cases e)
  case (JStr x)
  with assms(3) show ?thesis by (simp add: verdictRank_text)
next
  case (JBool b)
  with assms(3) show ?thesis by (auto simp: verdictRank_def severity_def)
next
  case (JObj ps)
  with assms(3) show ?thesis
    by (auto simp: verdictRank_def severity_def split: option.splits)
qed (use assms in \<open>simp_all add: verdictRank_def severity_def\<close>)

text \<open>
  The merge on a verdict whose property key is the value as written: the explicit verdict
  is kept when it is one of the three literals and ranks above the computed one, and the
  computed verdict is the result otherwise.
\<close>

lemma mergeVerdict_plain:
  assumes "plain_verdict e" and "mergeVerdict rt e v = Some w"
  shows "w = (if canonical_verdict e \<and> severity (JStr v) < severity e then e else JStr v)"
proof (cases "truthy e")
  case False
  then have "\<not> canonical_verdict e"
    by (auto simp: canonical_verdict_def)
  with False assms(2) show ?thesis by (simp add: mergeVerdict_def)
next
  case True
  from assms(2) True obtain n where n: "verdictRank rt e = Some n"
    and w: "w = (if severity (JStr v) < n then e else JStr v)"
    by (auto simp: mergeVerdict_def verdictRank_text split: Option.bind_splits)
  from verdictRank_plain [OF assms(1) True n] w severity_pos_iff [of e]
  show ?thesis by auto
qed

lemma escalation_of_plain_verdicts:
  assumes "decideCategory rt c = Some out"
    and "assess rt c = Some (m, t, s, v)"
    and "plain_verdict (opt_prop c ''verdict'')"
  shows "opt_prop out ''verdict'' =
      (if canonical_verdict (opt_prop c ''verdict'')
          \<and> severity (JStr v) < severity (opt_prop c ''verdict'')
       then opt_prop c ''verdict'' else JStr v)
    \<and> severity (opt_prop c ''verdict'') \<le> severity (opt_prop out ''verdict'')
    \<and> severity (JStr v) \<le> severity (opt_prop out ''verdict'')"
  using mergeVerdict_plain [OF assms(3) decided_verdict [OF assms(1) assms(2)]]
    severity_pos_iff [of "opt_prop c ''verdict''"]
  by auto

lemma assess_verdict_only:
  "assess rt (JObj [(''verdict'', x)]) =
     Some (JNum (Fin 0), JNum (Fin 0), JNum (Fin 0), ''CLEAN'')"
  by (simp add: assess_def counts_def opt_prop_def riskScore_def js_gt_def num_gt_def
      classify_def js_ge_number or_else_def Let_def)

lemma decide_verdict_only:
  "decideCategory rt (JObj [(''verdict'', x)]) =
     map_option
       (\<lambda>w. JObj [(''verdict'', w), (''risk_score'', JNum (Fin 0)),
                  (''malicious_count'', JNum (Fin 0)), (''total_engines'', JNum (Fin 1))])
       (mergeVerdict rt x ''CLEAN'')"
  by (cases "mergeVerdict rt x ''CLEAN''")
     (simp_all add: decideCategory_def assess_verdict_only spread_with_def set_props_def
      opt_prop_def js_or_def)

text \<open>
  C3 fails in the code. The header of \<^verbatim>\<open>decideVerdict\<close> promises a final verdict that is
  \<open>CLEAN\<close>, \<open>SUSPICIOUS\<close> or \<open>MALICIOUS\<close>, and the merge is meant to keep an explicit verdict
  only when it is one of these literals and ranks above the computed one. But
  \<^verbatim>\<open>verdictRank[category.verdict]\<close> converts its key to a string: for the category
  \<^verbatim>\<open>{verdict: ["SUSPICIOUS"]}\<close> the key is \<^verbatim>\<open>String(["SUSPICIOUS"])\<close>, the rank is 2, and the
  output verdict is the array, although the category carries no verdict literal and the
  computed verdict is \<open>CLEAN\<close>.
\<close>

theorem array_verdict_escalates:
  "\<not> canonical_verdict (JArr [JStr ''SUSPICIOUS''])
   \<and> assess example_runtime (JObj [(''verdict'', JArr [JStr ''SUSPICIOUS''])])
     = Some (JNum (Fin 0), JNum (Fin 0), JNum (Fin 0), ''CLEAN'')
   \<and> verdictRank example_runtime (JArr [JStr ''SUSPICIOUS'']) = Some 2
   \<and> out_field (decideCategory example_runtime (JObj [(''verdict'', JArr [JStr ''SUSPICIOUS''])]))
       ''verdict'' = Some (JArr [JStr ''SUSPICIOUS''])
   \<and> JArr [JStr ''SUSPICIOUS''] \<noteq> JStr ''CLEAN''"
  by (simp add: canonical_verdict_def assess_verdict_only decide_verdict_only out_field_def
      mergeVerdict_def verdictRank_def)

subsection \<open>The verdict of the output\<close>


text \<open>
  Category by category: a verdict whose property key is the value as written gives an
  output verdict among the three literals.
\<close>

lemma plain_verdict_canonical:
  assumes "decideCategory rt c = Some out" and "plain_verdict (opt_prop c ''verdict'')"
  shows "canonical_verdict (opt_prop out ''verdict'')"
proof -
  from decided_assessed [OF assms(1)] obtain m t s v where
    a: "assess rt c = Some (m, t, s, v)"
    by blast
  from a have "classify rt s m = Some v"
    by (simp add: assess_parts)
  from canonical_classify [OF this] show ?thesis
    by (simp add: escalation_of_plain_verdicts [OF assms(1) a assms(2)])
qed

text \<open>
  C10 fails in the code, by the conversion of the verdict to a property key. The header of
  \<^verbatim>\<open>decideVerdict\<close> promises a final verdict that is \<open>CLEAN\<close>, \<open>SUSPICIOUS\<close> or \<open>MALICIOUS\<close>,
  but for the list \<^verbatim>\<open>[{verdict: ["MALICIOUS"]}]\<close> the rank of the verdict is 3, that of
  \<^verbatim>\<open>String(["MALICIOUS"])\<close>, and the output verdict is the array, which is none of the three
  literals and is not replaced by the computed \<open>CLEAN\<close>.
\<close>

theorem array_verdict_not_canonical:
  "decideVerdict example_runtime (JArr [JObj [(''verdict'', JArr [JStr ''MALICIOUS''])]])
     = Some (JArr [JObj [(''verdict'', JArr [JStr ''MALICIOUS'']),
                         (''risk_score'', JNum (Fin 0)),
                         (''malicious_count'', JNum (Fin 0)),
                         (''total_engines'', JNum (Fin 1))]])
   \<and> verdictRank example_runtime (JArr [JStr ''MALICIOUS'']) = Some 3
   \<and> \<not> canonical_verdict (JArr [JStr ''MALICIOUS''])"
  by (simp add: decideVerdict_def map_all_def decide_verdict_only
      mergeVerdict_def verdictRank_def canonical_verdict_def)

subsection \<open>Idempotence\<close>

lemma set_props_triv:
  "(\<And>k v. (k, v) \<in> set kvs \<Longrightarrow> map_of al k = Some v) \<Longrightarrow> set_props al kvs = al"
proof (induction kvs)
  case Nil
  show ?case by (simp add: set_props_def)
next
  case (Cons kv kvs)
  obtain k v where kv: "kv = (k, v)" by (cases kv)
  have "map_of al k = Some v"
    using Cons.prems [of k v] by (simp add: kv)
  then have "AList.update k v al = al"
    by (rule update_triv)
  moreover have "set_props al kvs = al"
    using Cons.prems by (intro Cons.IH) simp
  ultimately show ?case
    by (simp add: kv set_props_Cons)
qed

lemma set_props_twice:
  assumes "distinct (map fst kvs)"
  shows "set_props (set_props ps kvs) kvs = set_props ps kvs"
proof (rule set_props_triv)
  fix k v assume "(k, v) \<in> set kvs"
  with assms have "map_of (rev kvs) k = Some v"
    by (intro map_of_is_SomeI) (simp_all add: distinct_rev rev_map [symmetric])
  then show "map_of (set_props ps kvs) k = Some v"
    by (simp add: map_of_set_props)
qed

lemma mergeVerdict_computed: "mergeVerdict rt (JStr v) v = Some (JStr v)"
  by (simp add: mergeVerdict_def verdictRank_text)

lemma mergeVerdict_idem:
  assumes "mergeVerdict rt e v = Some w"
  shows "mergeVerdict rt w v = Some w"
proof (cases "truthy e")
  case False
  with assms have "w = JStr v" by (simp add: mergeVerdict_def)
  then show ?thesis by (simp add: mergeVerdict_computed)
next
  case True
  with assms obtain n where n: "verdictRank rt e = Some n"
    and w: "w = (if severity (JStr v) < n then e else JStr v)"
    by (auto simp: mergeVerdict_def verdictRank_text split: Option.bind_splits)
  show ?thesis
  proof (cases "severity (JStr v) < n")
    case True
    with w assms show ?thesis by simp
  next
    case False
    with w show ?thesis by (simp add: mergeVerdict_computed)
  qed
qed

lemma riskScore_defined:
  assumes "riskScore rt c m t = Some s"
  shows "s \<noteq> JUndefined"
  using riskScore_value [OF assms] by (auto split: if_splits)

lemma riskScore_again:
  assumes "riskScore rt c m t = Some s"
    and "opt_prop out ''risk_score'' =
      (if opt_prop c ''risk_score'' \<noteq> JUndefined then opt_prop c ''risk_score'' else s)"
  shows "riskScore rt out m t = Some s"
proof (cases "js_gt rt t 0")
  case None
  with assms(1) show ?thesis by (simp add: riskScore_def)
next
  case (Some hasEngines)
  show ?thesis
  proof (cases hasEngines)
    case True
    with assms(1) Some show ?thesis by (simp add: riskScore_def)
  next
    case False
    with assms(1) Some have s: "s = (if truthy (opt_prop c ''risk_score'')
        then opt_prop c ''risk_score'' else JNum (Fin 0))"
      by (auto simp: riskScore_def)
    show ?thesis
    proof (cases "opt_prop c ''risk_score'' = JUndefined")
      case True
      with s have "s = JNum (Fin 0)" by simp
      with True assms(2) Some False show ?thesis by (simp add: riskScore_def)
    next
      case defined: False
      with assms(2) Some False s show ?thesis by (simp add: riskScore_def)
    qed
  qed
qed

lemma counts_cong:
  assumes "get_prop a ''results'' = get_prop b ''results''"
    and "opt_prop a ''detections'' = opt_prop b ''detections''"
    and "opt_prop a ''malicious_count'' = opt_prop b ''malicious_count''"
    and "opt_prop a ''total_engines'' = opt_prop b ''total_engines''"
  shows "counts rt a = counts rt b"
  unfolding counts_def assms by (rule refl)

lemma counts_explicit:
  assumes "counts rt c = Some (m, t)"
  shows "(opt_prop c ''malicious_count'' \<noteq> JUndefined \<longrightarrow> m = opt_prop c ''malicious_count'')
    \<and> (opt_prop c ''total_engines'' \<noteq> JUndefined \<longrightarrow> t = opt_prop c ''total_engines'')"
  using assms by (auto simp: counts_def Let_def split: Option.bind_splits if_splits)

lemma decideCategory_again:
  assumes d: "decideCategory rt (JObj ps) = Some out"
    and mc: "opt_prop (JObj ps) ''malicious_count'' \<noteq> JUndefined"
    and te: "truthy (opt_prop (JObj ps) ''total_engines'')"
  shows "decideCategory rt out = Some out"
proof -
  let ?c = "JObj ps"
  let ?r = "\<lambda>s. if opt_prop ?c ''risk_score'' \<noteq> JUndefined then opt_prop ?c ''risk_score'' else s"
  from decideCategory_fields [OF d] obtain m t s v w where
    a: "assess rt ?c = Some (m, t, s, v)" and
    w: "mergeVerdict rt (opt_prop ?c ''verdict'') v = Some w" and
    out: "out = spread_with ?c
       [(''verdict'', w), (''risk_score'', ?r s), (''malicious_count'', m),
        (''total_engines'', js_or t (JNum (Fin 1)))]"
    by blast
  let ?kvs = "[(''verdict'', w), (''risk_score'', ?r s), (''malicious_count'', m),
               (''total_engines'', js_or t (JNum (Fin 1)))]"
  from a have c: "counts rt ?c = Some (m, t)" and s: "riskScore rt ?c m t = Some s"
    and v: "classify rt s m = Some v"
    by (simp_all add: assess_parts)
  from te have te': "opt_prop ?c ''total_engines'' \<noteq> JUndefined"
    by auto
  have m: "m = opt_prop ?c ''malicious_count''" and t: "t = opt_prop ?c ''total_engines''"
    using counts_explicit [OF c] mc te' by blast+
  have t_keep: "js_or t (JNum (Fin 1)) = t"
    using te by (simp add: t js_or_def)
  have r_def: "?r s \<noteq> JUndefined"
    using riskScore_defined [OF s] by simp
  have f_results: "get_prop out ''results'' = get_prop ?c ''results''"
    by (simp add: out get_prop_spread_with map_of_set_props)
  have f_detections: "opt_prop out ''detections'' = opt_prop ?c ''detections''"
    by (simp add: out opt_prop_def get_prop_spread_with map_of_set_props)
  have f_verdict: "opt_prop out ''verdict'' = w"
    by (simp add: out opt_prop_def get_prop_spread_with map_of_set_props)
  have f_risk: "opt_prop out ''risk_score'' = ?r s"
    by (simp add: out opt_prop_def get_prop_spread_with map_of_set_props)
  have "opt_prop out ''malicious_count'' = m"
    by (simp add: out opt_prop_def get_prop_spread_with map_of_set_props)
  then have f_m: "opt_prop out ''malicious_count'' = opt_prop ?c ''malicious_count''"
    by (simp only: m)
  have "opt_prop out ''total_engines'' = js_or t (JNum (Fin 1))"
    by (simp add: out opt_prop_def get_prop_spread_with map_of_set_props)
  with t_keep t have f_t: "opt_prop out ''total_engines'' = opt_prop ?c ''total_engines''"
    by metis
  have c': "counts rt out = Some (m, t)"
    using counts_cong [OF f_results f_detections f_m f_t, of rt] c by simp
  have s': "riskScore rt out m t = Some s"
    using s f_risk by (rule riskScore_again)
  have a': "assess rt out = Some (m, t, s, v)"
    by (simp add: assess_parts c' s' v)
  have own: "own_props out = set_props ps ?kvs"
    by (simp add: out spread_with_def)
  have "decideCategory rt out = Some (spread_with out ?kvs)"
    using r_def by (simp add: decideCategory_def a' f_verdict f_risk mergeVerdict_idem [OF w])
  also have "spread_with out ?kvs = JObj (set_props (set_props ps ?kvs) ?kvs)"
    by (simp only: spread_with_def own)
  also have "set_props (set_props ps ?kvs) ?kvs = set_props ps ?kvs"
    by (rule set_props_twice) simp
  also have "JObj (set_props ps ?kvs) = out"
    by (simp add: out spread_with_def)
  finally show ?thesis .
qed

lemma opt_prop_defined_object:
  "opt_prop c k \<noteq> JUndefined \<Longrightarrow> \<exists>ps. c = JObj ps"
  by (cases c) (simp_all add: opt_prop_def)

lemma decideVerdict_single:
  "decideVerdict rt (JArr [c]) = map_option (\<lambda>out. JArr [out]) (decideCategory rt c)"
  by (cases "decideCategory rt c") (simp_all add: decideVerdict_def map_all_def)

text \<open>
  C4, as the code has it. The output \<^verbatim>\<open>total_engines\<close> is \<^verbatim>\<open>totalEngines || 1\<close>, so a category
  with \<^verbatim>\<open>total_engines: 0\<close> comes out with 1 engine and is scored anew on the second pass.
  For every category that carries an explicit \<^verbatim>\<open>malicious_count\<close> and an explicit
  \<^verbatim>\<open>total_engines\<close> that is not 0 (nor another falsy value), \<^verbatim>\<open>decideVerdict\<close> applied to
  the one-element list is idempotent. Where the first pass throws, so does the composition.
\<close>

theorem decideVerdict_idempotent:
  assumes "opt_prop c ''malicious_count'' \<noteq> JUndefined"
    and "truthy (opt_prop c ''total_engines'')"
  shows "Option.bind (decideVerdict rt (JArr [c])) (decideVerdict rt)
     = decideVerdict rt (JArr [c])"
proof (cases "decideCategory rt c")
  case None
  then show ?thesis by (simp add: decideVerdict_single)
next
  case (Some out)
  from assms(1) obtain ps where c: "c = JObj ps"
    using opt_prop_defined_object by blast
  from Some assms have "decideCategory rt out = Some out"
    unfolding c by (rule decideCategory_again)
  with Some show ?thesis by (simp add: decideVerdict_single)
qed

theorem decideVerdict_idempotent_witness:
  "opt_prop (JObj [(''malicious_count'', JNum (Fin 7)), (''total_engines'', JNum (Fin 10))])
       ''malicious_count'' \<noteq> JUndefined
   \<and> truthy (opt_prop
       (JObj [(''malicious_count'', JNum (Fin 7)), (''total_engines'', JNum (Fin 10))])
       ''total_engines'')
   \<and> decideVerdict example_runtime
       (JArr [JObj [(''malicious_count'', JNum (Fin 7)), (''total_engines'', JNum (Fin 10))]])
     = Some (JArr [JObj [(''malicious_count'', JNum (Fin 7)), (''total_engines'', JNum (Fin 10)),
                   (''verdict'', JStr ''MALICIOUS''), (''risk_score'', JNum (Fin 70))]])
   \<and> decideVerdict example_runtime
       (JArr [JObj [(''malicious_count'', JNum (Fin 7)), (''total_engines'', JNum (Fin 10)),
                   (''verdict'', JStr ''MALICIOUS''), (''risk_score'', JNum (Fin 70))]])
     = Some (JArr [JObj [(''malicious_count'', JNum (Fin 7)), (''total_engines'', JNum (Fin 10)),
                   (''verdict'', JStr ''MALICIOUS''), (''risk_score'', JNum (Fin 70))]])"
proof -
  let ?c = "JObj [(''malicious_count'', JNum (Fin 7)), (''total_engines'', JNum (Fin 10))]"
  let ?out = "JObj [(''malicious_count'', JNum (Fin 7)), (''total_engines'', JNum (Fin 10)),
                   (''verdict'', JStr ''MALICIOUS''), (''risk_score'', JNum (Fin 70))]"
  have m: "opt_prop ?c ''malicious_count'' \<noteq> JUndefined"
    by (simp add: opt_prop_def)
  have t: "truthy (opt_prop ?c ''total_engines'')"
    by (simp add: opt_prop_def)
  have d: "decideVerdict example_runtime (JArr [?c]) = Some (JArr [?out])"
    by (simp add: decideVerdict_single counted_decided)
  from decideVerdict_idempotent [OF m t, of example_runtime]
  have "decideVerdict example_runtime (JArr [?out]) = Some (JArr [?out])"
    by (simp add: d)
  with m t d show ?thesis by blast
qed

text \<open>
  One malicious engine of \<^verbatim>\<open>total_engines: 0\<close> (the default of a synthetic category): the
  first pass scores 0 and says \<open>CLEAN\<close> with \<^verbatim>\<open>total_engines: 1\<close>; the second pass scores
  \<open>round(1 / 1 * 100) = 100\<close> and says \<open>MALICIOUS\<close>.
\<close>

theorem decideVerdict_twice_counterexample:
  "decideVerdict example_runtime
       (JArr [JObj [(''malicious_count'', JNum (Fin 1)), (''total_engines'', JNum (Fin 0))]])
     = Some (JArr [JObj [(''malicious_count'', JNum (Fin 1)), (''total_engines'', JNum (Fin 1)),
                   (''verdict'', JStr ''CLEAN''), (''risk_score'', JNum (Fin 0))]])
   \<and> decideVerdict example_runtime
       (JArr [JObj [(''malicious_count'', JNum (Fin 1)), (''total_engines'', JNum (Fin 1)),
                   (''verdict'', JStr ''CLEAN''), (''risk_score'', JNum (Fin 0))]])
     = Some (JArr [JObj [(''malicious_count'', JNum (Fin 1)), (''total_engines'', JNum (Fin 1)),
                   (''verdict'', JStr ''MALICIOUS''), (''risk_score'', JNum (Fin 0))]])
   \<and> JStr ''CLEAN'' \<noteq> JStr ''MALICIOUS''"
proof -
  let ?c = "JObj [(''malicious_count'', JNum (Fin 1)), (''total_engines'', JNum (Fin 0))]"
  let ?o1 = "JObj [(''malicious_count'', JNum (Fin 1)), (''total_engines'', JNum (Fin 1)),
                   (''verdict'', JStr ''CLEAN''), (''risk_score'', JNum (Fin 0))]"
  have a1: "assess example_runtime ?c =
      Some (JNum (Fin 1), JNum (Fin 0), JNum (Fin 0), ''CLEAN'')"
    by (simp add: assess_def counts_def opt_prop_def riskScore_def js_gt_def num_gt_def
        classify_def js_ge_number or_else_def Let_def)
  have a2: "assess example_runtime ?o1 =
      Some (JNum (Fin 1), JNum (Fin 1), JNum (Fin 100), ''MALICIOUS'')"
    by (simp add: assess_def counts_def opt_prop_def riskScore_def js_gt_def num_gt_def
        classify_def js_ge_number or_else_def Let_def example_percentage)
  have "decideCategory example_runtime ?c = Some ?o1"
    by (simp add: decideCategory_def a1 spread_with_def set_props_def opt_prop_def
        mergeVerdict_def js_or_def)
  moreover have "decideCategory example_runtime ?o1 =
      Some (JObj [(''malicious_count'', JNum (Fin 1)), (''total_engines'', JNum (Fin 1)),
                   (''verdict'', JStr ''MALICIOUS''), (''risk_score'', JNum (Fin 0))])"
    by (simp add: decideCategory_def a2 spread_with_def set_props_def opt_prop_def
        mergeVerdict_def verdictRank_def js_or_def)
  ultimately show ?thesis
    by (simp add: decideVerdict_single)
qed

section \<open>The shape detector\<close>

text \<open>
  C5, as the code has it. The fourth shape is taken on
  \<^verbatim>\<open>raw.verdict || raw.risk_score || Array.isArray(raw.results)\<close>: the payload needs a truthy
  \<^verbatim>\<open>verdict\<close>, a truthy (non-zero) \<^verbatim>\<open>risk_score\<close> or a \<^verbatim>\<open>results\<close> sequence, not merely the
  field. Take a payload that is an object and not a sequence, has no \<^verbatim>\<open>categories\<close>
  sequence, whose \<^verbatim>\<open>results\<close> is not a sequence with a first element that carries a truthy
  \<^verbatim>\<open>verdict\<close>, and that has one of these three. The call throws when \<^verbatim>\<open>results\<close> is a
  non-empty sequence whose first element is \<^verbatim>\<open>null\<close> (reading its \<^verbatim>\<open>verdict\<close> throws) and when
  the normalization of a result throws. Otherwise the result is a one-element sequence
  whose category has each of \<^verbatim>\<open>verdict\<close>, \<^verbatim>\<open>risk_score\<close>, \<^verbatim>\<open>confidence\<close>, \<^verbatim>\<open>malicious_count\<close>,
  \<^verbatim>\<open>total_engines\<close> and \<^verbatim>\<open>count\<close> from the payload when truthy there and else the default
  (\<open>UNKNOWN\<close>, 0, \<open>N/A\<close>, 0, 0, and the length of \<^verbatim>\<open>raw.results\<close> if a sequence, else 1),
  \<^verbatim>\<open>detections\<close> from the payload if a sequence else empty, \<^verbatim>\<open>results\<close> from \<^verbatim>\<open>raw.results\<close>
  if a sequence, else from \<^verbatim>\<open>raw.items\<close> if a sequence, else empty (each element
  normalized), and \<^verbatim>\<open>_raw\<close> the payload.
\<close>

theorem synthetic_category:
  assumes "\<not> isArray raw" and "truthy raw" and "typeof_object raw"
    and "\<not> isArray (opt_prop raw ''categories'')"
    and "firstHasVerdict (opt_prop raw ''results'') \<noteq> Some True"
    and "truthy (opt_prop raw ''verdict'') \<or> truthy (opt_prop raw ''risk_score'')
           \<or> isArray (opt_prop raw ''results'')"
  shows "normalizeScanResponse rt raw =
    (if firstHasVerdict (opt_prop raw ''results'') = None then None
     else map_option
       (\<lambda>normalized. JArr [JObj
         [(''verdict'',
             if truthy (opt_prop raw ''verdict'') then opt_prop raw ''verdict''
             else JStr ''UNKNOWN''),
          (''risk_score'',
             if truthy (opt_prop raw ''risk_score'') then opt_prop raw ''risk_score''
             else JNum (Fin 0)),
          (''confidence'',
             if truthy (opt_prop raw ''confidence'') then opt_prop raw ''confidence''
             else JStr ''N/A''),
          (''malicious_count'',
             if truthy (opt_prop raw ''malicious_count'') then opt_prop raw ''malicious_count''
             else JNum (Fin 0)),
          (''total_engines'',
             if truthy (opt_prop raw ''total_engines'') then opt_prop raw ''total_engines''
             else JNum (Fin 0)),
          (''detections'',
             if isArray (opt_prop raw ''detections'') then opt_prop raw ''detections''
             else JArr []),
          (''results'', JArr normalized),
          (''count'',
             if truthy (opt_prop raw ''count'') then opt_prop raw ''count''
             else if isArray (opt_prop raw ''results'')
               then JNum (Fin (of_nat (length (elems (opt_prop raw ''results'')))))
             else JNum (Fin 1)),
          (''_raw'', raw)]])
       (map_all (normalizeResult rt)
          (if isArray (opt_prop raw ''results'') then elems (opt_prop raw ''results'')
           else if isArray (opt_prop raw ''items'') then elems (opt_prop raw ''items'')
           else [])))"
proof (cases "firstHasVerdict (opt_prop raw ''results'')")
  case None
  with assms(1-4) show ?thesis
    by (simp add: normalizeScanResponse_def Let_def)
next
  case (Some b)
  with assms(5) have b: "firstHasVerdict (opt_prop raw ''results'') = Some False"
    by simp
  show ?thesis
  proof (cases "map_all (normalizeResult rt) (result_source raw)")
    case None
    with assms(1-4,6) b show ?thesis
      by (simp add: normalizeScanResponse_def Let_def result_source_def
          split del: if_split cong: if_cong)
  next
    case (Some normalized)
    with assms(1-4,6) b show ?thesis
      by (simp add: normalizeScanResponse_def js_or_def Let_def result_source_def
          split del: if_split cong: if_cong)
  qed
qed

text \<open>
  The example of the specification, \<^verbatim>\<open>normalize({verdict: "X"})\<close>, and a payload whose
  first result is \<^verbatim>\<open>null\<close>: \<^verbatim>\<open>normalize({verdict: "X", results: [null]})\<close> throws.
\<close>

theorem synthetic_category_witness:
  "\<not> isArray (JObj [(''verdict'', JStr ''X'')])
   \<and> truthy (JObj [(''verdict'', JStr ''X'')])
   \<and> typeof_object (JObj [(''verdict'', JStr ''X'')])
   \<and> \<not> isArray (opt_prop (JObj [(''verdict'', JStr ''X'')]) ''categories'')
   \<and> firstHasVerdict (opt_prop (JObj [(''verdict'', JStr ''X'')]) ''results'') = Some False
   \<and> truthy (opt_prop (JObj [(''verdict'', JStr ''X'')]) ''verdict'')
   \<and> normalizeScanResponse example_runtime (JObj [(''verdict'', JStr ''X'')])
     = Some (JArr [JObj
         [(''verdict'', JStr ''X''), (''risk_score'', JNum (Fin 0)),
          (''confidence'', JStr ''N/A''), (''malicious_count'', JNum (Fin 0)),
          (''total_engines'', JNum (Fin 0)), (''detections'', JArr []),
          (''results'', JArr []), (''count'', JNum (Fin 1)),
          (''_raw'', JObj [(''verdict'', JStr ''X'')])]])
   \<and> firstHasVerdict
       (opt_prop (JObj [(''verdict'', JStr ''X''), (''results'', JArr [JNull])]) ''results'')
     = None
   \<and> normalizeScanResponse example_runtime
       (JObj [(''verdict'', JStr ''X''), (''results'', JArr [JNull])]) = None"
proof -
  let ?raw = "JObj [(''verdict'', JStr ''X'')]"
  have 1: "\<not> isArray ?raw" and 2: "truthy ?raw" and 3: "typeof_object ?raw"
    by simp_all
  have 4: "\<not> isArray (opt_prop ?raw ''categories'')"
    by (simp add: opt_prop_def)
  have 5: "firstHasVerdict (opt_prop ?raw ''results'') = Some False"
    by (simp add: opt_prop_def firstHasVerdict_def)
  then have h5: "firstHasVerdict (opt_prop ?raw ''results'') \<noteq> Some True"
    by simp
  have 6: "truthy (opt_prop ?raw ''verdict'')"
    by (simp add: opt_prop_def)
  then have 7: "truthy (opt_prop ?raw ''verdict'') \<or> truthy (opt_prop ?raw ''risk_score'')
           \<or> isArray (opt_prop ?raw ''results'')"
    by simp
  from synthetic_category [OF 1 2 3 4 h5 7, of example_runtime]
  have a: "normalizeScanResponse example_runtime ?raw
     = Some (JArr [JObj
         [(''verdict'', JStr ''X''), (''risk_score'', JNum (Fin 0)),
          (''confidence'', JStr ''N/A''), (''malicious_count'', JNum (Fin 0)),
          (''total_engines'', JNum (Fin 0)), (''detections'', JArr []),
          (''results'', JArr []), (''count'', JNum (Fin 1)),
          (''_raw'', ?raw)]])"
    by (simp add: opt_prop_def firstHasVerdict_def map_all_def)
  let ?bad = "JObj [(''verdict'', JStr ''X''), (''results'', JArr [JNull])]"
  have n1: "\<not> isArray ?bad" and n2: "truthy ?bad" and n3: "typeof_object ?bad"
    by simp_all
  have n4: "\<not> isArray (opt_prop ?bad ''categories'')"
    by (simp add: opt_prop_def)
  have n5: "firstHasVerdict (opt_prop ?bad ''results'') = None"
    by (simp add: opt_prop_def firstHasVerdict_def)
  then have g5: "firstHasVerdict (opt_prop ?bad ''results'') \<noteq> Some True"
    by simp
  have n7: "truthy (opt_prop ?bad ''verdict'') \<or> truthy (opt_prop ?bad ''risk_score'')
           \<or> isArray (opt_prop ?bad ''results'')"
    by (simp add: opt_prop_def)
  from synthetic_category [OF n1 n2 n3 n4 g5 n7, of example_runtime]
  have b: "normalizeScanResponse example_runtime ?bad = None"
    by (simp only: n5 simp_thms if_True)
  from 1 2 3 4 5 6 a n5 b show ?thesis by blast
qed

text \<open>
  The payload \<^verbatim>\<open>{risk_score: 0}\<close> has the field \<^verbatim>\<open>risk_score\<close>, but 0 is falsy: no shape
  matches and the result is the empty sequence.
\<close>

theorem zero_risk_score_counterexample:
  "has_field (JObj [(''risk_score'', JNum (Fin 0))]) ''risk_score''
   \<and> \<not> isArray (JObj [(''risk_score'', JNum (Fin 0))])
   \<and> \<not> isArray (opt_prop (JObj [(''risk_score'', JNum (Fin 0))]) ''categories'')
   \<and> firstHasVerdict (opt_prop (JObj [(''risk_score'', JNum (Fin 0))]) ''results'') = Some False
   \<and> normalizeScanResponse example_runtime (JObj [(''risk_score'', JNum (Fin 0))])
     = Some (JArr [])"
  by (simp add: has_field_def opt_prop_def firstHasVerdict_def normalizeScanResponse_def
      Let_def)

section \<open>The final output of the pipeline\<close>









section \<open>The result field normalizer\<close>

lemma faviconUrl_or_null: "js_or (faviconUrl r) JNull = faviconUrl r"
  by (simp add: faviconUrl_def js_or_def)

lemma faviconBase64_or_null: "js_or (faviconBase64 r) JNull = faviconBase64 r"
  by (simp add: faviconBase64_def js_or_def)

lemma faviconUrl_own: "truthy (opt_prop r ''favicon_url'') \<Longrightarrow> faviconUrl r = opt_prop r ''favicon_url''"
  by (simp add: faviconUrl_def)

lemma faviconBase64_own:
  "truthy (opt_prop r ''favicon_base64'') \<Longrightarrow> faviconBase64 r = opt_prop r ''favicon_base64''"
  by (simp add: faviconBase64_def)

lemma source_of_throws:
  "source_of rt url b = None \<longleftrightarrow> \<not> truthy url \<and> truthy b \<and> to_string rt b = None"
  by (simp add: source_of_def data_uri_def)

lemma normalizeResult_throws:
  assumes "truthy r" and "typeof_object r"
  shows "normalizeResult rt r = None \<longleftrightarrow>
      source_of rt (faviconUrl r) (faviconBase64 r) = None
    \<or> source_of rt (screenshotUrl r) (screenshotBase64 r) = None"
  using assms by (auto simp: normalizeResult_def split: Option.bind_splits)

lemma normalizeResult_object:
  assumes "truthy r" and "typeof_object r" and "normalizeResult rt r = Some out"
  shows "\<exists>f s. source_of rt (faviconUrl r) (faviconBase64 r) = Some f
    \<and> source_of rt (screenshotUrl r) (screenshotBase64 r) = Some s
    \<and> out = JObj (set_props (own_props r)
      [(''favicon_url'', faviconUrl r), (''favicon_base64'', faviconBase64 r),
       (''favicon_src'', f), (''screenshot_src'', s)])"
  using assms
  by (auto simp: normalizeResult_def spread_with_def faviconUrl_or_null faviconBase64_or_null
      split: Option.bind_splits)

text \<open>
  C7, as the code has it. Every input that is no object (\<^verbatim>\<open>null\<close> included) is returned
  unchanged. For an object input (an array is one) the call throws exactly when a source
  has to be built from a base64 value whose conversion to a string throws: no favicon URL
  is found and the favicon base64 value is truthy and does not convert, or the same of the
  screenshot. Otherwise it returns a new object that has the fields of the input and the
  four fields \<^verbatim>\<open>favicon_url\<close>, \<^verbatim>\<open>favicon_base64\<close>, \<^verbatim>\<open>favicon_src\<close> and \<^verbatim>\<open>screenshot_src\<close>. Every
  field of the input other than these four keeps its value. \<^verbatim>\<open>favicon_url\<close> is rewritten to
  the first truthy value among \<^verbatim>\<open>favicon_url\<close> and its aliases, or to \<^verbatim>\<open>null\<close>, and
  \<^verbatim>\<open>favicon_base64\<close> likewise: each keeps its value when that is truthy, and not otherwise.
  \<^verbatim>\<open>favicon_src\<close> and \<^verbatim>\<open>screenshot_src\<close> are the URL found, else the data URI of the base64
  value found, else \<^verbatim>\<open>null\<close>.
\<close>

theorem normalizeResult_frame:
  "(\<not> truthy r \<or> \<not> typeof_object r \<longrightarrow> normalizeResult rt r = Some r)
   \<and> (truthy r \<and> typeof_object r \<longrightarrow>
        (normalizeResult rt r = None \<longleftrightarrow>
            \<not> truthy (faviconUrl r) \<and> truthy (faviconBase64 r)
              \<and> to_string rt (faviconBase64 r) = None
          \<or> \<not> truthy (screenshotUrl r) \<and> truthy (screenshotBase64 r)
              \<and> to_string rt (screenshotBase64 r) = None)
      \<and> (\<forall>out. normalizeResult rt r = Some out \<longrightarrow>
          (\<forall>k. k \<notin> canonical_keys \<longrightarrow> map_of (own_props out) k = map_of (own_props r) k)
        \<and> fst ` set (own_props out) = fst ` set (own_props r) \<union> canonical_keys
        \<and> map_of (own_props out) ''favicon_url'' = Some (faviconUrl r)
        \<and> map_of (own_props out) ''favicon_base64'' = Some (faviconBase64 r)
        \<and> map_of (own_props out) ''favicon_src''
            = source_of rt (faviconUrl r) (faviconBase64 r)
        \<and> map_of (own_props out) ''screenshot_src''
            = source_of rt (screenshotUrl r) (screenshotBase64 r)
        \<and> (truthy (opt_prop r ''favicon_url'') \<longrightarrow>
             map_of (own_props out) ''favicon_url'' = Some (opt_prop r ''favicon_url''))
        \<and> (truthy (opt_prop r ''favicon_base64'') \<longrightarrow>
             map_of (own_props out) ''favicon_base64'' = Some (opt_prop r ''favicon_base64''))))"
proof (intro conjI impI allI)
  assume "\<not> truthy r \<or> \<not> typeof_object r"
  then show "normalizeResult rt r = Some r"
    by (auto simp: normalizeResult_def)
next
  assume "truthy r \<and> typeof_object r"
  then show "normalizeResult rt r = None \<longleftrightarrow>
            \<not> truthy (faviconUrl r) \<and> truthy (faviconBase64 r)
              \<and> to_string rt (faviconBase64 r) = None
          \<or> \<not> truthy (screenshotUrl r) \<and> truthy (screenshotBase64 r)
              \<and> to_string rt (screenshotBase64 r) = None"
    by (simp add: normalizeResult_throws source_of_throws)
next
  fix out
  assume o: "truthy r \<and> typeof_object r" and n: "normalizeResult rt r = Some out"
  from o n obtain f s where
    f: "source_of rt (faviconUrl r) (faviconBase64 r) = Some f" and
    s: "source_of rt (screenshotUrl r) (screenshotBase64 r) = Some s" and
    out: "out = JObj (set_props (own_props r)
      [(''favicon_url'', faviconUrl r), (''favicon_base64'', faviconBase64 r),
       (''favicon_src'', f), (''screenshot_src'', s)])"
    using normalizeResult_object [of r rt out] by blast
  show "map_of (own_props out) k = map_of (own_props r) k" if "k \<notin> canonical_keys" for k
    using that by (simp add: out map_of_set_props canonical_keys_def)
  show "fst ` set (own_props out) = fst ` set (own_props r) \<union> canonical_keys"
    by (auto simp: out keys_set_props canonical_keys_def)
  show u: "map_of (own_props out) ''favicon_url'' = Some (faviconUrl r)"
    by (simp add: out map_of_set_props)
  show b: "map_of (own_props out) ''favicon_base64'' = Some (faviconBase64 r)"
    by (simp add: out map_of_set_props)
  show "map_of (own_props out) ''favicon_src'' = source_of rt (faviconUrl r) (faviconBase64 r)"
    by (simp add: out map_of_set_props f)
  show "map_of (own_props out) ''screenshot_src''
      = source_of rt (screenshotUrl r) (screenshotBase64 r)"
    by (simp add: out map_of_set_props s)
  show "map_of (own_props out) ''favicon_url'' = Some (opt_prop r ''favicon_url'')"
    if "truthy (opt_prop r ''favicon_url'')"
    using u faviconUrl_own [OF that] by simp
  show "map_of (own_props out) ''favicon_base64'' = Some (opt_prop r ''favicon_base64'')"
    if "truthy (opt_prop r ''favicon_base64'')"
    using b faviconBase64_own [OF that] by simp
qed

text \<open>
  \<^verbatim>\<open>null\<close> and a string come back unchanged; a result with a base64 favicon keeps its
  \<^verbatim>\<open>domain\<close> and gets the four fields; a result whose base64 favicon is the object
  \<^verbatim>\<open>{toString: 1}\<close> makes the call throw.
\<close>

theorem normalizeResult_frame_witness:
  "normalizeResult example_runtime JNull = Some JNull
   \<and> normalizeResult example_runtime (JStr ''example.com'') = Some (JStr ''example.com'')
   \<and> normalizeResult example_runtime
       (JObj [(''domain'', JStr ''example.com''), (''favicon_base64'', JStr ''QUJD'')])
     = Some (JObj [(''domain'', JStr ''example.com''), (''favicon_base64'', JStr ''QUJD''),
             (''favicon_url'', JNull), (''favicon_src'', JStr ''data:image/png;base64,QUJD''),
             (''screenshot_src'', JNull)])
   \<and> map_of (own_props
       (JObj [(''domain'', JStr ''example.com''), (''favicon_base64'', JStr ''QUJD''),
             (''favicon_url'', JNull), (''favicon_src'', JStr ''data:image/png;base64,QUJD''),
             (''screenshot_src'', JNull)]))
       ''domain'' = Some (JStr ''example.com'')
   \<and> normalizeResult example_runtime
       (JObj [(''favicon_base64'', JObj [(''toString'', JNum (Fin 1))])]) = None"
proof -
  let ?r = "JObj [(''domain'', JStr ''example.com''), (''favicon_base64'', JStr ''QUJD'')]"
  let ?out = "JObj [(''domain'', JStr ''example.com''), (''favicon_base64'', JStr ''QUJD''),
             (''favicon_url'', JNull), (''favicon_src'', JStr ''data:image/png;base64,QUJD''),
             (''screenshot_src'', JNull)]"
  let ?bad = "JObj [(''favicon_base64'', JObj [(''toString'', JNum (Fin 1))])]"
  have "\<not> truthy JNull \<or> \<not> typeof_object JNull"
    by simp
  with normalizeResult_frame [of JNull example_runtime]
  have 1: "normalizeResult example_runtime JNull = Some JNull"
    by blast
  have "\<not> truthy (JStr ''example.com'') \<or> \<not> typeof_object (JStr ''example.com'')"
    by simp
  with normalizeResult_frame [of "JStr ''example.com''" example_runtime]
  have 2: "normalizeResult example_runtime (JStr ''example.com'') = Some (JStr ''example.com'')"
    by blast
  have 3: "normalizeResult example_runtime ?r = Some ?out"
    by (simp add: normalizeResult_def faviconUrl_def faviconBase64_def screenshotUrl_def
        screenshotBase64_def source_of_def opt_prop_def js_or_def data_uri_def spread_with_def
        set_props_def)
  have "truthy ?r \<and> typeof_object ?r" and "''domain'' \<notin> canonical_keys"
    by (simp_all add: canonical_keys_def)
  with normalizeResult_frame [of ?r example_runtime] 3
  have "map_of (own_props ?out) ''domain'' = map_of (own_props ?r) ''domain''"
    by blast
  then have 4: "map_of (own_props ?out) ''domain'' = Some (JStr ''example.com'')"
    by simp
  have "truthy ?bad \<and> typeof_object ?bad"
    by simp
  moreover have "\<not> truthy (faviconUrl ?bad) \<and> truthy (faviconBase64 ?bad)
      \<and> to_string example_runtime (faviconBase64 ?bad) = None"
    by (simp add: faviconUrl_def faviconBase64_def opt_prop_def)
  ultimately have 5: "normalizeResult example_runtime ?bad = None"
    using normalizeResult_frame [of ?bad example_runtime] by blast
  from 1 2 3 4 5 show ?thesis by blast
qed

text \<open>
  An empty \<^verbatim>\<open>favicon_url\<close> beside a \<^verbatim>\<open>favicon\<close>: the output \<^verbatim>\<open>favicon_url\<close> is the value of
  \<^verbatim>\<open>favicon\<close>, not the original empty string.
\<close>

theorem favicon_url_altered_counterexample:
  "normalizeResult example_runtime
       (JObj [(''favicon_url'', JStr ''''), (''favicon'', JStr ''x.png'')])
     = Some (JObj [(''favicon_url'', JStr ''x.png''), (''favicon'', JStr ''x.png''),
             (''favicon_base64'', JNull), (''favicon_src'', JStr ''x.png''),
             (''screenshot_src'', JNull)])
   \<and> opt_prop (JObj [(''favicon_url'', JStr ''''), (''favicon'', JStr ''x.png'')])
       ''favicon_url'' = JStr ''''
   \<and> JStr ''x.png'' \<noteq> JStr ''''"
  by (simp add: normalizeResult_def faviconUrl_def faviconBase64_def screenshotUrl_def
      screenshotBase64_def source_of_def opt_prop_def js_or_def spread_with_def set_props_def)

section \<open>The WHOIS utilities\<close>

lemma truthy_or_chain: "truthy (or_chain xs) \<longleftrightarrow> (\<exists>x \<in> set xs. truthy x)"
  by (induction xs rule: or_chain.induct) auto

lemma parseWhoisData_null: "parseWhoisData rt clk now w = JNull \<longleftrightarrow> \<not> hasWhoisData w"
  by (simp add: parseWhoisData_def Let_def)

text \<open>
  C8, as the code has it. \<^verbatim>\<open>hasWhoisData\<close> has its own list of keys: it is true iff its
  argument is an object and one of the fourteen keys \<^verbatim>\<open>domain_name\<close>, \<^verbatim>\<open>domain\<close>,
  \<^verbatim>\<open>registrar\<close>, \<^verbatim>\<open>org\<close>, \<^verbatim>\<open>organization\<close>, \<^verbatim>\<open>country\<close>, \<^verbatim>\<open>creation_date\<close>, \<^verbatim>\<open>created\<close>,
  \<^verbatim>\<open>creationDate\<close>, \<^verbatim>\<open>expiration_date\<close>, \<^verbatim>\<open>expires\<close>, \<^verbatim>\<open>expirationDate\<close>, \<^verbatim>\<open>name_servers\<close>,
  \<^verbatim>\<open>nameServers\<close> holds a truthy value. The aliases that only \<^verbatim>\<open>normalizeWhoisFields\<close> knows
  do not count. \<^verbatim>\<open>parseWhoisData\<close> returns \<^verbatim>\<open>null\<close> exactly when \<^verbatim>\<open>hasWhoisData\<close> is false.
\<close>

theorem whois_gate:
  "(hasWhoisData w \<longleftrightarrow>
      truthy w \<and> typeof_object w \<and>
      (\<exists>k \<in> set [''domain_name'', ''domain'', ''registrar'', ''org'', ''organization'',
                   ''country'', ''creation_date'', ''created'', ''creationDate'',
                   ''expiration_date'', ''expires'', ''expirationDate'',
                   ''name_servers'', ''nameServers'']. truthy (opt_prop w k)))
   \<and> (parseWhoisData rt clk now w = JNull \<longleftrightarrow> \<not> hasWhoisData w)"
proof
  show "hasWhoisData w \<longleftrightarrow>
      truthy w \<and> typeof_object w \<and>
      (\<exists>k \<in> set [''domain_name'', ''domain'', ''registrar'', ''org'', ''organization'',
                   ''country'', ''creation_date'', ''created'', ''creationDate'',
                   ''expiration_date'', ''expires'', ''expirationDate'',
                   ''name_servers'', ''nameServers'']. truthy (opt_prop w k))"
    unfolding hasWhoisData_def truthy_or_chain by auto
  show "parseWhoisData rt clk now w = JNull \<longleftrightarrow> \<not> hasWhoisData w"
    by (rule parseWhoisData_null)
qed

theorem whois_gate_witness:
  "hasWhoisData (JObj [(''registrar'', JStr ''GoDaddy.com, LLC'')])
   \<and> parseWhoisData example_runtime example_clock example_now
       (JObj [(''registrar'', JStr ''GoDaddy.com, LLC'')]) \<noteq> JNull
   \<and> \<not> hasWhoisData (JObj [])
   \<and> parseWhoisData example_runtime example_clock example_now (JObj []) = JNull"
proof -
  let ?w = "JObj [(''registrar'', JStr ''GoDaddy.com, LLC'')]"
  have "truthy (opt_prop ?w ''registrar'')"
    by (simp add: opt_prop_def)
  with whois_gate [of ?w example_runtime example_clock example_now]
  have 1: "hasWhoisData ?w
      \<and> parseWhoisData example_runtime example_clock example_now ?w \<noteq> JNull"
    by simp
  have "\<And>k. \<not> truthy (opt_prop (JObj []) k)"
    by (simp add: opt_prop_def)
  with whois_gate [of "JObj []" example_runtime example_clock example_now]
  have 2: "\<not> hasWhoisData (JObj [])
      \<and> parseWhoisData example_runtime example_clock example_now (JObj []) = JNull"
    by simp
  from 1 2 show ?thesis by blast
qed

text \<open>
  A record with \<^verbatim>\<open>sponsoring_registrar\<close> and \<^verbatim>\<open>nserver\<close> only: field normalization resolves a
  registrar and name servers from it, but the gate is false and the record parses to
  \<^verbatim>\<open>null\<close>.
\<close>

theorem whois_alias_counterexample:
  "opt_prop (normalizeWhoisFields
       (JObj [(''sponsoring_registrar'', JStr ''GoDaddy.com, LLC''),
              (''nserver'', JArr [JStr ''ns1.example.com''])])) ''registrar''
     = JStr ''GoDaddy.com, LLC''
   \<and> opt_prop (normalizeWhoisFields
       (JObj [(''sponsoring_registrar'', JStr ''GoDaddy.com, LLC''),
              (''nserver'', JArr [JStr ''ns1.example.com''])])) ''name_servers''
     = JArr [JStr ''ns1.example.com'']
   \<and> \<not> hasWhoisData
       (JObj [(''sponsoring_registrar'', JStr ''GoDaddy.com, LLC''),
              (''nserver'', JArr [JStr ''ns1.example.com''])])
   \<and> parseWhoisData example_runtime example_clock example_now
       (JObj [(''sponsoring_registrar'', JStr ''GoDaddy.com, LLC''),
              (''nserver'', JArr [JStr ''ns1.example.com''])]) = JNull"
proof -
  let ?w = "JObj [(''sponsoring_registrar'', JStr ''GoDaddy.com, LLC''),
              (''nserver'', JArr [JStr ''ns1.example.com''])]"
  have 1: "opt_prop (normalizeWhoisFields ?w) ''registrar'' = JStr ''GoDaddy.com, LLC''"
    by (simp add: normalizeWhoisFields_def opt_prop_def)
  have 2: "opt_prop (normalizeWhoisFields ?w) ''name_servers'' = JArr [JStr ''ns1.example.com'']"
    by (simp add: normalizeWhoisFields_def opt_prop_def)
  have 3: "\<not> hasWhoisData ?w"
    by (simp add: hasWhoisData_def opt_prop_def)
  then have 4: "parseWhoisData example_runtime example_clock example_now ?w = JNull"
    by (simp add: parseWhoisData_null)
  from 1 2 3 4 show ?thesis by blast
qed

subsection \<open>Dates\<close>

lemma first_date_scalar: "\<not> isArray x \<Longrightarrow> first_date x = x"
  by (simp add: first_date_def)

lemma first_date_Cons: "first_date (JArr (x # xs)) = x"
  by (simp add: first_date_def)

lemma formatWhoisDate_first:
  "\<not> isArray x \<Longrightarrow> formatWhoisDate clk (JArr (x # xs)) = formatWhoisDate clk x"
  by (simp add: formatWhoisDate_def first_date_Cons first_date_scalar)

lemma calculateDomainAge_first:
  "\<not> isArray x \<Longrightarrow>
     calculateDomainAge rt clk now (JArr (x # xs)) = calculateDomainAge rt clk now x"
  by (simp add: calculateDomainAge_def first_date_Cons first_date_scalar)

lemma calculateDomainAgeInDays_first:
  "\<not> isArray x \<Longrightarrow>
     calculateDomainAgeInDays rt clk now (JArr (x # xs)) = calculateDomainAgeInDays rt clk now x"
  by (simp add: calculateDomainAgeInDays_def first_date_Cons first_date_scalar)

lemma daysUntilExpiration_first:
  "\<not> isArray x \<Longrightarrow>
     daysUntilExpiration rt clk now (JArr (x # xs)) = daysUntilExpiration rt clk now x"
  by (simp add: daysUntilExpiration_def first_date_Cons first_date_scalar)

text \<open>
  C9. For every non-empty string that the runtime cannot parse as a date,
  \<^verbatim>\<open>formatWhoisDate\<close> returns the string itself, and \<^verbatim>\<open>calculateDomainAge\<close>,
  \<^verbatim>\<open>calculateDomainAgeInDays\<close> and \<^verbatim>\<open>daysUntilExpiration\<close> return \<^verbatim>\<open>null\<close>, whatever the clock
  reads; the same holds of a sequence that starts with that string. Of a sequence, the
  first element is the one used: each of the four functions gives on \<open>x # xs\<close> what it gives
  on the single value \<open>x\<close>.
\<close>

theorem unparseable_date:
  assumes "s \<noteq> []" and "date_time clk (JStr s) = InvalidDate"
  shows "formatWhoisDate clk (JStr s) = JStr s
    \<and> formatWhoisDate clk (JStr s) \<noteq> JNull
    \<and> calculateDomainAge rt clk now (JStr s) = JNull
    \<and> calculateDomainAgeInDays rt clk now (JStr s) = JNull
    \<and> daysUntilExpiration rt clk now (JStr s) = JNull
    \<and> formatWhoisDate clk (JArr (JStr s # rest)) = JStr s
    \<and> calculateDomainAge rt clk now (JArr (JStr s # rest)) = JNull
    \<and> calculateDomainAgeInDays rt clk now (JArr (JStr s # rest)) = JNull
    \<and> daysUntilExpiration rt clk now (JArr (JStr s # rest)) = JNull
    \<and> (\<not> isArray x \<longrightarrow>
          formatWhoisDate clk (JArr (x # xs)) = formatWhoisDate clk x
        \<and> calculateDomainAge rt clk now (JArr (x # xs)) = calculateDomainAge rt clk now x
        \<and> calculateDomainAgeInDays rt clk now (JArr (x # xs))
            = calculateDomainAgeInDays rt clk now x
        \<and> daysUntilExpiration rt clk now (JArr (x # xs)) = daysUntilExpiration rt clk now x)"
proof -
  have f: "formatWhoisDate clk (JStr s) = JStr s"
    using assms by (simp add: formatWhoisDate_def first_date_def)
  have a: "calculateDomainAge rt clk now (JStr s) = JNull"
    using assms by (simp add: calculateDomainAge_def first_date_def)
  have d: "calculateDomainAgeInDays rt clk now (JStr s) = JNull"
    using assms by (simp add: calculateDomainAgeInDays_def first_date_def)
  have e: "daysUntilExpiration rt clk now (JStr s) = JNull"
    using assms by (simp add: daysUntilExpiration_def first_date_def)
  have n: "\<not> isArray (JStr s)"
    by simp
  show ?thesis
    using f a d e n
    by (simp add: formatWhoisDate_first calculateDomainAge_first calculateDomainAgeInDays_first
        daysUntilExpiration_first)
qed

text \<open>
  The example clock cannot parse \<open>soon\<close>. It can parse \<open>2024-01-01\<close>, the creation date
  of \<^verbatim>\<open>SAMPLE_RESPONSE\<close>, which on 2025-01-01 is 366 days or 1.0 years old.
\<close>

theorem unparseable_date_witness:
  "''soon'' \<noteq> [] \<and> date_time example_clock (JStr ''soon'') = InvalidDate
   \<and> formatWhoisDate example_clock (JStr ''soon'') = JStr ''soon''
   \<and> daysUntilExpiration example_runtime example_clock (example_now 0) (JArr [JStr ''soon''])
     = JNull
   \<and> \<not> isArray (JStr ''2024-01-01'')
   \<and> formatWhoisDate example_clock (JArr [JStr ''2024-01-01'', JStr ''soon''])
     = JStr ''Jan 1, 2024''
   \<and> calculateDomainAgeInDays example_runtime example_clock (example_now 0)
       (JArr [JStr ''2024-01-01'']) = JNum (Fin 366)
   \<and> calculateDomainAge example_runtime example_clock (example_now 0)
       (JArr [JStr ''2024-01-01'']) = JNum (Fin 1)"
proof -
  have s: "''soon'' \<noteq> []" and p: "date_time example_clock (JStr ''soon'') = InvalidDate"
    by (simp_all add: example_clock_def)
  have n: "\<not> isArray (JStr ''2024-01-01'')"
    by simp
  have f0: "formatWhoisDate example_clock (JStr ''2024-01-01'') = JStr ''Jan 1, 2024''"
    by (simp add: formatWhoisDate_def first_date_def example_clock_def)
  have d0: "calculateDomainAgeInDays example_runtime example_clock (example_now 0)
      (JStr ''2024-01-01'') = JNum (Fin 366)"
    by (simp add: calculateDomainAgeInDays_def first_date_def example_clock_def example_now_def
        example_runtime_def Let_def)
  have a0: "calculateDomainAge example_runtime example_clock (example_now 0)
      (JStr ''2024-01-01'') = JNum (Fin 1)"
    by (simp add: calculateDomainAge_def first_date_def example_clock_def example_now_def
        example_runtime_def Let_def floor_numeral_div)
  note u = unparseable_date [OF s p, of example_runtime "example_now 0" "[]"
      "JStr ''2024-01-01''"]
  from u [of "[JStr ''soon'']"] n f0
  have 1: "formatWhoisDate example_clock (JArr [JStr ''2024-01-01'', JStr ''soon''])
     = JStr ''Jan 1, 2024''"
    by simp
  from u [of "[]"] n d0 a0
  have 2: "calculateDomainAgeInDays example_runtime example_clock (example_now 0)
      (JArr [JStr ''2024-01-01'']) = JNum (Fin 366)"
    and 3: "calculateDomainAge example_runtime example_clock (example_now 0)
      (JArr [JStr ''2024-01-01'']) = JNum (Fin 1)"
    by simp_all
  from u [of "[]"]
  have 4: "formatWhoisDate example_clock (JStr ''soon'') = JStr ''soon''"
    and 5: "daysUntilExpiration example_runtime example_clock (example_now 0)
      (JArr [JStr ''soon'']) = JNull"
    by simp_all
  from s p n 1 2 3 4 5 show ?thesis by blast
qed

end
